(* ===== verification/Prelude.thy ===== *)
theory Prelude
  imports Complex_Main "HOL-Library.Word"
begin

text \<open>
  Shared vocabulary of the development. The program under study (\<open>src/src/main.cxx\<close>) is a
  sequence of five library smoke tests that communicate with the outside world only through
  standard output and standard error. This theory fixes:
  \<^item> the observable output of a run, a list of events \<open>Out\<close> (a line written to
    \<open>std::cout\<close> and ended by \<open>std::endl\<close>), \<open>Err\<close> (the same on \<open>std::cerr\<close>) and
    \<open>OutValue\<close> (a line whose tail is a floating-point value written by the stream);
  \<^item> a bind \<open>bindE\<close> for the sum type \<open>'e + 'a\<close>, in which \<open>Inl\<close> is a fault of the
    modelled program (a use after free, a call into an uninitialised library);
  \<^item> decimal printing and parsing of naturals, used by the stream output of counters and
    by the text mesh parser, with their round trip;
  \<^item> the collections \<open>model_defs\<close> (definitions unfolded to evaluate a check on a
    concrete environment) and \<open>trace_simps\<close> (rewriting of traces).
\<close>

named_theorems model_defs "definitions of the model unfolded for concrete evaluation"
named_theorems trace_simps "rewrite rules for output traces"

section \<open>Output traces\<close>

text \<open>The newline character, written \<open>\\n\<close> in the C++ sources.\<close>

definition nl :: char where "nl = CHR 0x0A"

datatype ev = Out string | Err string | OutValue string rat

type_synonym trace = "ev list"

fun is_out :: "ev \<Rightarrow> bool" where
  "is_out (Out _) = True"
| "is_out (Err _) = False"
| "is_out (OutValue _ _) = True"

definition stdout_of :: "trace \<Rightarrow> trace" where
  "stdout_of t = filter is_out t"

definition stderr_of :: "trace \<Rightarrow> trace" where
  "stderr_of t = filter (\<lambda>e. \<not> is_out e) t"

lemma stdout_of_simps [simp, trace_simps]:
  "stdout_of [] = []"
  "stdout_of (Out s # t) = Out s # stdout_of t"
  "stdout_of (OutValue s v # t) = OutValue s v # stdout_of t"
  "stdout_of (Err s # t) = stdout_of t"
  "stdout_of (t @ u) = stdout_of t @ stdout_of u"
  by (simp_all add: stdout_of_def)

lemma stderr_of_simps [simp, trace_simps]:
  "stderr_of [] = []"
  "stderr_of (Out s # t) = stderr_of t"
  "stderr_of (OutValue s v # t) = stderr_of t"
  "stderr_of (Err s # t) = Err s # stderr_of t"
  "stderr_of (t @ u) = stderr_of t @ stderr_of u"
  by (simp_all add: stderr_of_def)

text \<open>The floating-point values printed in a trace, in order.\<close>

fun printed_values :: "trace \<Rightarrow> rat list" where
  "printed_values [] = []"
| "printed_values (OutValue _ v # t) = v # printed_values t"
| "printed_values (_ # t) = printed_values t"

lemma printed_values_append [simp, trace_simps]:
  "printed_values (t @ u) = printed_values t @ printed_values u"
  by (induction t rule: printed_values.induct) simp_all

lemma length_stdout_stderr [simp]:
  "length (stdout_of t) + length (stderr_of t) = length t"
  by (induction t) (simp_all add: stdout_of_def stderr_of_def)

section \<open>Faults as values\<close>

fun bindE :: "'e + 'a \<Rightarrow> ('a \<Rightarrow> 'e + 'b) \<Rightarrow> 'e + 'b" where
  "bindE (Inl e) f = Inl e"
| "bindE (Inr a) f = f a"

lemma bindE_Inr_iff [simp]:
  "bindE m f = Inr b \<longleftrightarrow> (\<exists>a. m = Inr a \<and> f a = Inr b)"
  by (cases m) simp_all

lemma bindE_Inl_iff:
  "bindE m f = Inl e \<longleftrightarrow> m = Inl e \<or> (\<exists>a. m = Inr a \<and> f a = Inl e)"
  by (cases m) simp_all

lemma bindE_assoc [simp]:
  "bindE (bindE m f) g = bindE m (\<lambda>a. bindE (f a) g)"
  by (cases m) simp_all

section \<open>Decimal numerals\<close>

text \<open>
  \<open>dec_digits\<close> lists the decimal digits of a natural, most significant first, as
  \<open>operator<<\<close> on an unsigned integer prints them; \<open>parse_nat\<close> reads a non-empty string
  of decimal digits back (as \<open>std::strtoul\<close> does on a token that is all digits).
\<close>

fun dec_digits :: "nat \<Rightarrow> nat list" where
  "dec_digits n = (if n < 10 then [n] else dec_digits (n div 10) @ [n mod 10])"

declare dec_digits.simps [simp del]

definition digit_char :: "nat \<Rightarrow> char" where
  "digit_char d = char_of (48 + d)"

definition show_nat :: "nat \<Rightarrow> string" where
  "show_nat n = map digit_char (dec_digits n)"

definition char_digit :: "char \<Rightarrow> nat option" where
  "char_digit c = (let k = of_char c :: nat in if 48 \<le> k \<and> k < 58 then Some (k - 48) else None)"

fun digits_value :: "nat \<Rightarrow> string \<Rightarrow> nat option" where
  "digits_value acc [] = Some acc"
| "digits_value acc (c # cs) =
     (case char_digit c of None \<Rightarrow> None | Some d \<Rightarrow> digits_value (10 * acc + d) cs)"

definition parse_nat :: "string \<Rightarrow> nat option" where
  "parse_nat s = (if s = [] then None else digits_value 0 s)"

lemma dec_digits_small: "d \<in> set (dec_digits n) \<Longrightarrow> d < 10"
proof (induction n rule: dec_digits.induct)
  case (1 n)
  then show ?case
    by (cases "n < 10") (auto simp: dec_digits.simps [of n])
qed

lemma dec_digits_nonempty [simp]: "dec_digits n \<noteq> []"
  by (subst dec_digits.simps) simp

lemma char_digit_digit_char [simp]: "d < 10 \<Longrightarrow> char_digit (digit_char d) = Some d"
  by (simp add: char_digit_def digit_char_def Let_def)

lemma digits_value_append:
  "(\<forall>d \<in> set ds. d < 10) \<Longrightarrow>
   digits_value acc (map digit_char ds @ cs) = digits_value (foldl (\<lambda>a d. 10 * a + d) acc ds) cs"
  by (induction ds arbitrary: acc) simp_all

lemma foldl_dec_digits: "foldl (\<lambda>a d. 10 * a + d) 0 (dec_digits n) = n"
proof (induction n rule: dec_digits.induct)
  case (1 n)
  then show ?case
    by (cases "n < 10") (simp_all add: dec_digits.simps [of n])
qed

text \<open>Printing a counter and reading it back gives the counter.\<close>

lemma parse_show_nat [simp]: "parse_nat (show_nat n) = Some n"
proof -
  have "digits_value 0 (map digit_char (dec_digits n) @ []) = Some n"
    using digits_value_append [of "dec_digits n" 0 "[]"] dec_digits_small foldl_dec_digits
    by simp
  then show ?thesis
    by (simp add: parse_nat_def show_nat_def)
qed

lemma show_nat_nonempty [simp]: "show_nat n \<noteq> []"
  by (simp add: show_nat_def)

section \<open>Positions and first occurrences\<close>

text \<open>
  \<open>index_of x xs\<close> is the position of the first occurrence of \<open>x\<close> in \<open>xs\<close>
  (\<open>length xs\<close> when there is none); \<open>dedup\<close> keeps the first occurrence of each
  element, in order.
\<close>

fun index_of :: "'a \<Rightarrow> 'a list \<Rightarrow> nat" where
  "index_of x [] = 0"
| "index_of x (y # ys) = (if x = y then 0 else Suc (index_of x ys))"

fun dedup_acc :: "'a list \<Rightarrow> 'a list \<Rightarrow> 'a list" where
  "dedup_acc acc [] = acc"
| "dedup_acc acc (x # xs) = dedup_acc (if x \<in> set acc then acc else acc @ [x]) xs"

definition dedup :: "'a list \<Rightarrow> 'a list" where
  "dedup xs = dedup_acc [] xs"

lemma index_of_less [simp]: "x \<in> set xs \<Longrightarrow> index_of x xs < length xs"
  by (induction xs) auto

lemma nth_index_of [simp]: "x \<in> set xs \<Longrightarrow> xs ! index_of x xs = x"
  by (induction xs) auto

lemma set_dedup_acc: "set (dedup_acc acc xs) = set acc \<union> set xs"
  by (induction xs arbitrary: acc) auto

lemma distinct_dedup_acc: "distinct acc \<Longrightarrow> distinct (dedup_acc acc xs)"
  by (induction xs arbitrary: acc) auto

lemma set_dedup [simp]: "set (dedup xs) = set xs"
  by (simp add: dedup_def set_dedup_acc)

lemma distinct_dedup [simp]: "distinct (dedup xs)"
  by (simp add: dedup_def distinct_dedup_acc)

lemma length_dedup_le: "length (dedup xs) \<le> length xs"
proof -
  have "length (dedup xs) = card (set xs)"
    using distinct_card [OF distinct_dedup [of xs]] by simp
  then show ?thesis by (simp add: card_length)
qed

lemma dedup_distinct_id: "distinct xs \<Longrightarrow> dedup xs = xs"
proof -
  have "distinct (acc @ xs) \<Longrightarrow> dedup_acc acc xs = acc @ xs" for acc
    by (induction xs arbitrary: acc) auto
  then show "distinct xs \<Longrightarrow> dedup xs = xs"
    by (simp add: dedup_def)
qed

section \<open>Shared list facts\<close>

lemma count_list_replicate_same [simp]: "count_list (replicate n x) x = n"
  by (induction n) simp_all

end
