(* ===== verification/Boost_Check.thy ===== *)
theory Boost_Check
  imports Prelude
begin

text \<open>
  The filesystem check \<open>testBoost\<close> (\<open>src/src/main.cxx\<close>, lines 47--66). The operating
  system is reduced to what \<open>boost::filesystem::current_path(ec)\<close> reads from it: the
  working directory, or the \<open>errno\<close> value and message of a failing \<open>getcwd\<close>. The
  overload with an \<open>error_code\<close> reports failure through \<open>ec\<close> and returns an empty path;
  on success it clears \<open>ec\<close>.
\<close>

record error_code =
  ec_value :: int
  ec_message :: string

record os_state =
  os_cwd :: "string option"
  os_errno :: int
  os_strerror :: string

definition current_path :: "os_state \<Rightarrow> string \<times> error_code" where
  "current_path os =
     (case os_cwd os of
        Some p \<Rightarrow> (p, \<lparr>ec_value = 0, ec_message = ''Success''\<rparr>)
      | None \<Rightarrow> ([], \<lparr>ec_value = os_errno os, ec_message = os_strerror os\<rparr>))"

text \<open>\<open>if (ec)\<close>: an error code converts to true when its value is not zero.\<close>

definition ec_set :: "error_code \<Rightarrow> bool" where
  "ec_set ec \<longleftrightarrow> ec_value ec \<noteq> 0"

text \<open>
  Lines 52--65: the early return on a set error code, the path line, and the second test of
  the same error code (line 62) before the last line.
\<close>

definition testBoost :: "os_state \<Rightarrow> trace" where
  "testBoost os =
     (case current_path os of
        (currentDir, ec) \<Rightarrow>
          if ec_set ec then [Err (''Boost Filesystem error: '' @ ec_message ec)]
          else [Out (''Boost Filesystem is working. Current directory: '' @ currentDir)] @
               (if \<not> ec_set ec then [Out ''Boost System is working.''] else []))"

definition sample_os :: os_state where
  "sample_os = \<lparr>os_cwd = Some ''/home/user/cross'', os_errno = 0, os_strerror = ''''\<rparr>"

definition failing_os :: os_state where
  "failing_os = \<lparr>os_cwd = None, os_errno = 13, os_strerror = ''Permission denied''\<rparr>"

section \<open>Properties\<close>

text \<open>
  C21: When the operating system reports a working directory, \<open>testBoost\<close> prints exactly that
  path after its prefix, followed by the second success line, and nothing on standard error.
\<close>

theorem testBoost_prints_cwd:
  "os_cwd os = Some p \<Longrightarrow>
   testBoost os = [Out (''Boost Filesystem is working. Current directory: '' @ p),
                   Out ''Boost System is working.'']"
  by (simp add: testBoost_def current_path_def ec_set_def)

lemma testBoost_prints_cwd_witness:
  "os_cwd sample_os = Some ''/home/user/cross'' \<and>
   testBoost sample_os = [Out (''Boost Filesystem is working. Current directory: '' @ ''/home/user/cross''),
                          Out ''Boost System is working.'']"
  using testBoost_prints_cwd [of sample_os "''/home/user/cross''"] by (simp add: sample_os_def)

text \<open>
  C15: When \<open>getcwd\<close> fails with a non-zero \<open>errno\<close>, \<open>testBoost\<close> prints only the error
  message on standard error and returns early; it does not raise.
\<close>

theorem testBoost_error:
  "os_cwd os = None \<Longrightarrow> os_errno os \<noteq> 0 \<Longrightarrow>
   testBoost os = [Err (''Boost Filesystem error: '' @ os_strerror os)]"
  by (simp add: testBoost_def current_path_def ec_set_def)

lemma testBoost_error_witness:
  "os_cwd failing_os = None \<and> os_errno failing_os \<noteq> 0 \<and>
   testBoost failing_os = [Err ''Boost Filesystem error: Permission denied'']"
  using testBoost_error [of failing_os] by (simp add: failing_os_def)

text \<open>
  C26: The second test of the error code (line 62) never fails where it is reached: for any
  result of \<open>current_path\<close>, the path line is printed exactly when the line
  \<open>Boost System is working.\<close> is.
\<close>

theorem testBoost_second_check_redundant:
  "(\<exists>d. Out (''Boost Filesystem is working. Current directory: '' @ d) \<in> set (testBoost os)) \<longleftrightarrow>
   Out ''Boost System is working.'' \<in> set (testBoost os)"
  by (auto simp: testBoost_def split: prod.splits)

lemma testBoost_second_check_redundant_witness:
  "(\<exists>d. Out (''Boost Filesystem is working. Current directory: '' @ d) \<in> set (testBoost sample_os)) \<and>
   Out ''Boost System is working.'' \<in> set (testBoost sample_os)"
proof -
  have "Out ''Boost System is working.'' \<in> set (testBoost sample_os)"
    by (simp add: testBoost_def current_path_def ec_set_def sample_os_def)
  with testBoost_second_check_redundant [of sample_os] show ?thesis by blast
qed

end
