(* ===== verification/FLTK_Check.thy ===== *)
theory FLTK_Check
  imports Prelude
begin

unbundle bit_operations_syntax

text \<open>
  The GUI check \<open>testFLTK\<close> (\<open>src/src/main.cxx\<close>, lines 30--44) and the FLTK widget
  rules it depends on. Widgets live in a store (\<open>fl_state\<close>) with their geometry, label,
  box type, label size, alignment flags (an \<open>Fl_Align\<close>, an unsigned 32-bit word), parent,
  children, visibility and whether they are automatic (stack) objects. FLTK's rules, from
  its sources: a widget's constructor adds it to the current group
  (\<open>Fl_Group::current()\<close>); a group's constructor makes itself the current group and
  \<open>end()\<close> restores its parent; a top-level \<open>Fl_Window\<close> is added to no group; a widget's
  destructor removes it from its parent; a group's destructor \<open>delete\<close>s the children it
  still has, which is undefined for an automatic object. \<open>Fl::wait(t)\<close> blocks for at most
  \<open>t\<close> seconds; the model counts the calls and adds up their bounds. The first
  \<open>show()\<close> of a window opens the display (\<open>fl_open_display\<close>); when no display can be
  opened it calls \<open>Fl::fatal("Can't open display: %s", ...)\<close>, whose default handler prints
  the message on standard error and calls \<open>exit(1)\<close>. Whether a display opens, and its
  name, are the platform's answers (\<open>fl_env\<close>). Nothing else is printed.
\<close>

section \<open>Widgets\<close>

datatype fl_kind = FlWindow | FlBox

datatype fl_boxtype = FL_NO_BOX | FL_UP_BOX

definition FL_ALIGN_CENTER :: "32 word" where "FL_ALIGN_CENTER = 0"
definition FL_ALIGN_INSIDE :: "32 word" where "FL_ALIGN_INSIDE = 16"
definition FL_ALIGN_WRAP :: "32 word" where "FL_ALIGN_WRAP = 128"

record fl_widget =
  wkind :: fl_kind
  geometry :: "int \<times> int \<times> int \<times> int"
  wlabel :: string
  boxtype :: fl_boxtype
  labelsize :: int
  walign :: "32 word"
  wparent :: "nat option"
  wchildren :: "nat list"
  wvisible :: bool
  automatic :: bool

record fl_state =
  widgets :: "nat \<Rightarrow> fl_widget option"
  current_group :: "nat option"
  wait_calls :: nat
  wait_bound :: rat
  destroyed :: "nat list"

text \<open>\<open>FatalExit msg\<close> is \<open>Fl::fatal\<close>: \<open>msg\<close> on standard error, then \<open>exit(1)\<close>; the
  other two are undefined behaviour.\<close>

datatype fl_fault = DeleteAutomatic nat | NoSuchWidget nat | FatalExit string

record fl_env =
  fl_display_ok :: bool
  fl_display_name :: string

definition fl_start :: fl_state where
  "fl_start = \<lparr>widgets = (\<lambda>_. None), current_group = None, wait_calls = 0, wait_bound = 0,
               destroyed = []\<rparr>"

definition new_widget :: "fl_kind \<Rightarrow> int \<times> int \<times> int \<times> int \<Rightarrow> string \<Rightarrow> nat option \<Rightarrow> fl_widget" where
  "new_widget k g l p = \<lparr>wkind = k, geometry = g, wlabel = l, boxtype = FL_NO_BOX, labelsize = 14,
     walign = FL_ALIGN_CENTER, wparent = p, wchildren = [], wvisible = False, automatic = True\<rparr>"

text \<open>\<open>Fl_Window window(w, h, label)\<close>: a top-level window, made the current group.\<close>

definition fl_window :: "nat \<Rightarrow> int \<Rightarrow> int \<Rightarrow> string \<Rightarrow> fl_state \<Rightarrow> fl_state" where
  "fl_window p w h l s =
     s\<lparr>widgets := (widgets s)(p \<mapsto> new_widget FlWindow (0, 0, w, h) l None), current_group := Some p\<rparr>"

text \<open>\<open>Fl_Box box(x, y, w, h, label)\<close>: added to the current group, if any.\<close>

definition fl_box :: "nat \<Rightarrow> int \<times> int \<times> int \<times> int \<Rightarrow> string \<Rightarrow> fl_state \<Rightarrow> fl_state" where
  "fl_box p g l s =
     (let s1 = s\<lparr>widgets := (widgets s)(p \<mapsto> new_widget FlBox g l (current_group s))\<rparr>
      in case current_group s of
           None \<Rightarrow> s1
         | Some q \<Rightarrow> (case widgets s1 q of
                        None \<Rightarrow> s1
                      | Some gw \<Rightarrow> s1\<lparr>widgets := (widgets s1)(q \<mapsto> gw\<lparr>wchildren := wchildren gw @ [p]\<rparr>)\<rparr>))"

definition update_widget :: "nat \<Rightarrow> (fl_widget \<Rightarrow> fl_widget) \<Rightarrow> fl_state \<Rightarrow> fl_fault + fl_state" where
  "update_widget p f s =
     (case widgets s p of None \<Rightarrow> Inl (NoSuchWidget p) | Some wd \<Rightarrow> Inr (s\<lparr>widgets := (widgets s)(p \<mapsto> f wd)\<rparr>))"

text \<open>\<open>group.end()\<close>: the current group becomes the group's parent.\<close>

definition fl_end :: "nat \<Rightarrow> fl_state \<Rightarrow> fl_fault + fl_state" where
  "fl_end p s = (case widgets s p of None \<Rightarrow> Inl (NoSuchWidget p)
                  | Some wd \<Rightarrow> Inr (s\<lparr>current_group := wparent wd\<rparr>))"

text \<open>\<open>window.show()\<close>: opens the display, then maps the window.\<close>

definition fl_show :: "fl_env \<Rightarrow> nat \<Rightarrow> fl_state \<Rightarrow> fl_fault + fl_state" where
  "fl_show env p s =
     (if \<not> fl_display_ok env then Inl (FatalExit (''Can't open display: '' @ fl_display_name env))
      else update_widget p (\<lambda>wd. wd\<lparr>wvisible := True\<rparr>) s)"

definition fl_wait :: "rat \<Rightarrow> fl_state \<Rightarrow> fl_state" where
  "fl_wait t s = s\<lparr>wait_calls := Suc (wait_calls s), wait_bound := wait_bound s + t\<rparr>"

text \<open>
  The destructor of an automatic widget at scope exit: it leaves its parent; a group first
  deletes the children it still has, which faults on an automatic child.
\<close>

definition fl_destroy :: "nat \<Rightarrow> fl_state \<Rightarrow> fl_fault + fl_state" where
  "fl_destroy p s =
     (case widgets s p of
        None \<Rightarrow> Inl (NoSuchWidget p)
      | Some wd \<Rightarrow>
          (case filter (\<lambda>c. widgets s c \<noteq> None) (wchildren wd) of
             c # _ \<Rightarrow> Inl (DeleteAutomatic c)
           | [] \<Rightarrow>
               let s1 = (case wparent wd of
                           None \<Rightarrow> s
                         | Some q \<Rightarrow> (case widgets s q of
                                        None \<Rightarrow> s
                                      | Some pw \<Rightarrow> s\<lparr>widgets := (widgets s)(q \<mapsto>
                                                      pw\<lparr>wchildren := removeAll p (wchildren pw)\<rparr>)\<rparr>))
               in Inr (s1\<lparr>widgets := (widgets s1)(p := None), destroyed := destroyed s1 @ [p]\<rparr>)))"

section \<open>The check\<close>

text \<open>Lines 40--43: \<open>n\<close> iterations of \<open>Fl::wait(0.1)\<close>.\<close>

fun fltk_wait_loop :: "nat \<Rightarrow> fl_state \<Rightarrow> fl_state" where
  "fltk_wait_loop 0 s = s"
| "fltk_wait_loop (Suc n) s = fltk_wait_loop n (fl_wait (1/10) s)"

text \<open>Lines 32--38, with \<open>window\<close> at address 0 and \<open>box\<close> at address 1.\<close>

definition fltk_setup :: "fl_env \<Rightarrow> fl_state \<Rightarrow> fl_fault + fl_state" where
  "fltk_setup env s0 =
     (let s1 = fl_window 0 300 180 ''FLTK Test'' s0;
          s2 = fl_box 1 (20, 40, 260, 100) ''FLTK is working!'' s1
      in bindE (update_widget 1 (\<lambda>wd. wd\<lparr>boxtype := FL_UP_BOX\<rparr>) s2) (\<lambda>s3.
         bindE (update_widget 1 (\<lambda>wd. wd\<lparr>labelsize := 24\<rparr>) s3) (\<lambda>s4.
         bindE (update_widget 1 (\<lambda>wd. wd\<lparr>walign := FL_ALIGN_WRAP OR FL_ALIGN_INSIDE\<rparr>) s4) (\<lambda>s5.
         bindE (fl_end 0 s5) (\<lambda>s6.
         fl_show env 0 s6)))))"

text \<open>Line 44: the automatic objects are destroyed in the reverse order of their
  declarations, the box and then the window.\<close>

definition fltk_scope_exit :: "fl_state \<Rightarrow> fl_fault + fl_state" where
  "fltk_scope_exit s = bindE (fl_destroy 1 s) (fl_destroy 0)"

definition testFLTK :: "fl_env \<Rightarrow> fl_state \<Rightarrow> fl_fault + fl_state" where
  "testFLTK env s0 = bindE (fltk_setup env s0) (\<lambda>s. fltk_scope_exit (fltk_wait_loop 10 s))"

definition display_env :: fl_env where
  "display_env = \<lparr>fl_display_ok = True, fl_display_name = '':0''\<rparr>"

section \<open>Properties\<close>

lemmas fl_defs = fl_window_def fl_box_def update_widget_def fl_end_def fl_show_def fl_destroy_def new_widget_def
  fl_start_def

lemma fltk_wait_loop_fields:
  "current_group (fltk_wait_loop n s) = current_group s \<and> widgets (fltk_wait_loop n s) = widgets s \<and>
   destroyed (fltk_wait_loop n s) = destroyed s"
  by (induction n arbitrary: s) (simp_all add: fl_wait_def)

lemma fltk_wait_loop_counts:
  "wait_calls (fltk_wait_loop n s) = wait_calls s + n \<and>
   wait_bound (fltk_wait_loop n s) = wait_bound s + of_nat n / 10 \<and>
   widgets (fltk_wait_loop n s) = widgets s"
proof (induction n arbitrary: s)
  case 0
  then show ?case by simp
next
  case (Suc n)
  from Suc.IH [of "fl_wait (1/10) s"] show ?case
    by (simp add: fl_wait_def field_simps)
qed

text \<open>
  C25: The wait loop of lines 40--43, run for n iterations, calls \<open>Fl::wait\<close> exactly n
  times and so blocks for at most n/10 seconds in all; it changes no widget.
\<close>

theorem fltk_wait_loop_bound:
  "wait_calls (fltk_wait_loop n s) = wait_calls s + n \<and>
   wait_bound (fltk_wait_loop n s) = wait_bound s + of_nat n / 10 \<and>
   widgets (fltk_wait_loop n s) = widgets s"
  by (rule fltk_wait_loop_counts)

text \<open>
  C24: After lines 32--38 the box is a child of the shown window, has an up box, label
  size 24, and the alignment word 144, whose only set bits are \<open>FL_ALIGN_INSIDE\<close> and
  \<open>FL_ALIGN_WRAP\<close>; no group is current any more.
\<close>

theorem fltk_setup_layout:
  "fl_display_ok env \<Longrightarrow>
   \<exists>s w b. fltk_setup env fl_start = Inr s \<and> widgets s 0 = Some w \<and> widgets s 1 = Some b \<and>
     wchildren w = [1] \<and> wvisible w \<and> wparent b = Some 0 \<and> boxtype b = FL_UP_BOX \<and>
     labelsize b = 24 \<and> walign b = 144 \<and>
     walign b AND FL_ALIGN_INSIDE \<noteq> 0 \<and> walign b AND FL_ALIGN_WRAP \<noteq> 0 \<and>
     walign b AND NOT (FL_ALIGN_INSIDE OR FL_ALIGN_WRAP) = 0 \<and> current_group s = None"
  by (simp add: fltk_setup_def fl_defs FL_ALIGN_INSIDE_def FL_ALIGN_WRAP_def)

lemma fltk_setup_layout_witness:
  "fl_display_ok display_env \<and>
   (\<exists>s w b. fltk_setup display_env fl_start = Inr s \<and> widgets s 0 = Some w \<and> widgets s 1 = Some b \<and>
     wchildren w = [1] \<and> wvisible w \<and> wparent b = Some 0 \<and> walign b = 144)"
proof -
  have "fl_display_ok display_env" by (simp add: display_env_def)
  with fltk_setup_layout [of display_env] show ?thesis by blast
qed

lemma testFLTK_run:
  assumes "fl_display_ok env"
  shows "\<exists>s. testFLTK env fl_start = Inr s \<and> (\<forall>p. widgets s p = None) \<and> destroyed s = [1, 0] \<and>
     wait_calls s = 10 \<and> wait_bound s = 1 \<and> current_group s = None"
proof -
  obtain s where s: "fltk_setup env fl_start = Inr s" and c: "current_group s = None"
    and w: "widgets s 0 = Some (new_widget FlWindow (0, 0, 300, 180) ''FLTK Test'' None
                \<lparr>wchildren := [1], wvisible := True\<rparr>)"
    and b: "widgets s 1 = Some (new_widget FlBox (20, 40, 260, 100) ''FLTK is working!'' (Some 0)
                \<lparr>boxtype := FL_UP_BOX, labelsize := 24, walign := FL_ALIGN_WRAP OR FL_ALIGN_INSIDE\<rparr>)"
    and o: "\<forall>p. p \<noteq> 0 \<longrightarrow> p \<noteq> 1 \<longrightarrow> widgets s p = None"
    and d: "destroyed s = []" and wc: "wait_calls s = 0" and wb: "wait_bound s = 0"
    using assms by (simp add: fltk_setup_def fl_defs)
  let ?s = "fltk_wait_loop 10 s"
  have l: "widgets ?s = widgets s" "destroyed ?s = []" "wait_calls ?s = 10" "wait_bound ?s = 1"
    "current_group ?s = None"
    using fltk_wait_loop_counts [of 10 s] fltk_wait_loop_fields [of 10 s] d wc wb c by simp_all
  have "\<exists>s'. fltk_scope_exit ?s = Inr s' \<and> (\<forall>p. widgets s' p = None) \<and> destroyed s' = [1, 0] \<and>
     wait_calls s' = 10 \<and> wait_bound s' = 1 \<and> current_group s' = None"
    using l w b o by (simp add: fltk_scope_exit_def fl_destroy_def new_widget_def)
  with s show ?thesis by (simp add: testFLTK_def)
qed

text \<open>
  C16: When a display can be opened, \<open>testFLTK\<close> completes without undefined behaviour:
  after ten waits (at most one second of blocking) the box and then the window are
  destroyed at the end of the scope, and no widget and no current group is left.
\<close>

theorem testFLTK_completes:
  "fl_display_ok env \<Longrightarrow>
   \<exists>s. testFLTK env fl_start = Inr s \<and> (\<forall>p. widgets s p = None) \<and> destroyed s = [1, 0] \<and>
     wait_calls s = 10 \<and> wait_bound s = 1 \<and> current_group s = None"
  by (rule testFLTK_run)

lemma testFLTK_completes_witness:
  "fl_display_ok display_env \<and>
   (\<exists>s. testFLTK display_env fl_start = Inr s \<and> destroyed s = [1, 0] \<and> wait_calls s = 10)"
proof -
  have "fl_display_ok display_env" by (simp add: display_env_def)
  with testFLTK_completes [of display_env] show ?thesis by blast
qed

text \<open>Without a display, \<open>window.show()\<close> at line 38 ends the process through
  \<open>Fl::fatal\<close>: neither the wait loop nor the destructors run.\<close>

lemma testFLTK_no_display:
  "\<not> fl_display_ok env \<Longrightarrow>
   testFLTK env fl_start = Inl (FatalExit (''Can't open display: '' @ fl_display_name env))"
  by (simp add: testFLTK_def fltk_setup_def fl_defs)

end
