(* ===== verification/GLFW_Check.thy ===== *)
theory GLFW_Check
  imports Prelude
begin

text \<open>
  The graphics-context check \<open>testOpenGL\<close> (\<open>src/src/main.cxx\<close>, lines 69--108) and
  the part of the GLFW and glad libraries it drives. The library is a state machine
  (\<open>glfw_state\<close>): initialised or not, its window hints, its live windows with the
  context each was created with, the current context, whether glad has loaded the GL
  function pointers, and two counters of successful \<open>glfwInit\<close> and effective
  \<open>glfwTerminate\<close> calls. One constructor of \<open>glfw_op\<close> per library call of the
  source; \<open>glfw_step\<close> gives its effect, or a \<open>gl_fault\<close> when the call is a misuse
  (a call before \<open>glfwInit\<close>, a GL call with no loaded function pointers, a null string
  written to a stream). Outcomes that depend on the platform (whether initialisation,
  window creation or loading succeed, the driver's version string) are arguments of the
  operations, chosen by the environment \<open>gl_env\<close>.
\<close>

section \<open>Library state and operations\<close>

datatype glfw_hint = CONTEXT_VERSION_MAJOR | CONTEXT_VERSION_MINOR | OPENGL_PROFILE

definition GLFW_OPENGL_ANY_PROFILE :: int where "GLFW_OPENGL_ANY_PROFILE = 0"
definition GLFW_OPENGL_CORE_PROFILE :: int where "GLFW_OPENGL_CORE_PROFILE = 204801"

text \<open>\<open>glfwDefaultWindowHints\<close>, applied by \<open>glfwInit\<close>: context version 1.0, any profile.\<close>

definition default_hints :: "glfw_hint \<Rightarrow> int" where
  "default_hints h = (case h of CONTEXT_VERSION_MAJOR \<Rightarrow> 1 | CONTEXT_VERSION_MINOR \<Rightarrow> 0
                       | OPENGL_PROFILE \<Rightarrow> GLFW_OPENGL_ANY_PROFILE)"

type_synonym rgba = "rat \<times> rat \<times> rat \<times> rat"

record glfw_state =
  initialized :: bool
  hints :: "glfw_hint \<Rightarrow> int"
  windows :: "(nat \<times> (glfw_hint \<Rightarrow> int)) list"
  next_window :: nat
  current :: "nat option"
  gl_loaded :: bool
  clear_color :: rgba
  presented :: "(nat \<times> (glfw_hint \<Rightarrow> int) \<times> rgba) list"
  inits :: nat
  terminations :: nat

definition glfw_start :: glfw_state where
  "glfw_start = \<lparr>initialized = False, hints = default_hints, windows = [], next_window = 0,
     current = None, gl_loaded = False, clear_color = (0, 0, 0, 0), presented = [],
     inits = 0, terminations = 0\<rparr>"

datatype glfw_op =
    GlfwInit bool
  | GlfwWindowHint glfw_hint int
  | GlfwCreateWindow int int string bool
  | GlfwMakeContextCurrent nat
  | GladLoadGL bool
  | GlGetString "string option"
  | GlClearColor rat rat rat rat
  | GlClear
  | GlfwSwapBuffers nat
  | GlfwPollEvents
  | GlfwWaitEventsTimeout rat
  | GlfwTerminate

datatype glfw_ret = RNone | RBool bool | RWindow "nat option" | RString "string option"

datatype gl_fault =
    NOT_INITIALIZED | INVALID_VALUE | NO_CURRENT_CONTEXT | NO_WINDOW
  | GL_NOT_LOADED | NULL_STRING_INSERT

definition live_window :: "glfw_state \<Rightarrow> nat \<Rightarrow> bool" where
  "live_window s w \<longleftrightarrow> map_of (windows s) w \<noteq> None"

text \<open>
  The framebuffer is cleared to the clear colour; presenting it is recorded with the
  window, the context hints the window was created with, and the colour it then holds.
  \<open>glfwTerminate\<close> on an uninitialised library does nothing, as the GLFW documentation
  specifies; on an initialised one it destroys every window.
\<close>

fun glfw_step :: "glfw_op \<Rightarrow> glfw_state \<Rightarrow> gl_fault + (glfw_ret \<times> glfw_state)" where
  "glfw_step (GlfwInit ok) s =
     (if initialized s then Inr (RBool True, s)
      else if ok then Inr (RBool True, s\<lparr>initialized := True, hints := default_hints,
                                          inits := Suc (inits s)\<rparr>)
      else Inr (RBool False, s))"
| "glfw_step (GlfwWindowHint h v) s =
     (if \<not> initialized s then Inl NOT_INITIALIZED
      else Inr (RNone, s\<lparr>hints := (hints s)(h := v)\<rparr>))"
| "glfw_step (GlfwCreateWindow w h title ok) s =
     (if \<not> initialized s then Inl NOT_INITIALIZED
      else if w \<le> 0 \<or> h \<le> 0 then Inl INVALID_VALUE
      else if ok then Inr (RWindow (Some (next_window s)),
              s\<lparr>windows := windows s @ [(next_window s, hints s)],
                next_window := Suc (next_window s)\<rparr>)
      else Inr (RWindow None, s))"
| "glfw_step (GlfwMakeContextCurrent w) s =
     (if \<not> initialized s then Inl NOT_INITIALIZED
      else if \<not> live_window s w then Inl NO_WINDOW
      else Inr (RNone, s\<lparr>current := Some w\<rparr>))"
| "glfw_step (GladLoadGL ok) s =
     (if \<not> initialized s then Inl NOT_INITIALIZED
      else if current s = None then Inl NO_CURRENT_CONTEXT
      else if ok then Inr (RBool True, s\<lparr>gl_loaded := True\<rparr>)
      else Inr (RBool False, s))"
| "glfw_step (GlGetString v) s =
     (if \<not> gl_loaded s \<or> current s = None then Inl GL_NOT_LOADED else Inr (RString v, s))"
| "glfw_step (GlClearColor r g b a) s =
     (if \<not> gl_loaded s \<or> current s = None then Inl GL_NOT_LOADED
      else Inr (RNone, s\<lparr>clear_color := (r, g, b, a)\<rparr>))"
| "glfw_step GlClear s =
     (if \<not> gl_loaded s \<or> current s = None then Inl GL_NOT_LOADED else Inr (RNone, s))"
| "glfw_step (GlfwSwapBuffers w) s =
     (if \<not> initialized s then Inl NOT_INITIALIZED
      else case map_of (windows s) w of
        None \<Rightarrow> Inl NO_WINDOW
      | Some ctx \<Rightarrow> Inr (RNone, s\<lparr>presented := presented s @ [(w, ctx, clear_color s)]\<rparr>))"
| "glfw_step GlfwPollEvents s =
     (if \<not> initialized s then Inl NOT_INITIALIZED else Inr (RNone, s))"
| "glfw_step (GlfwWaitEventsTimeout t) s =
     (if \<not> initialized s then Inl NOT_INITIALIZED
      else if t < 0 then Inl INVALID_VALUE else Inr (RNone, s))"
| "glfw_step GlfwTerminate s =
     (if \<not> initialized s then Inr (RNone, s)
      else Inr (RNone, s\<lparr>initialized := False, windows := [], current := None,
                          gl_loaded := False, terminations := Suc (terminations s)\<rparr>))"

text \<open>Sequencing a library call with the code that uses its result.\<close>

definition gl_bind ::
  "glfw_op \<Rightarrow> glfw_state \<Rightarrow> (glfw_ret \<Rightarrow> glfw_state \<Rightarrow> gl_fault + 'a) \<Rightarrow> gl_fault + 'a" where
  "gl_bind op s k = (case glfw_step op s of Inl e \<Rightarrow> Inl e | Inr (r, s') \<Rightarrow> k r s')"

section \<open>The check\<close>

record gl_env =
  glfw_platform_ok :: bool
  glfw_window_ok :: bool
  glad_loader_ok :: bool
  gl_version :: "string option"

text \<open>
  \<open>testOpenGL\<close>, line by line: \<open>glfwInit\<close> and its early return (71--75), the three
  window hints (76--78), window creation and its failure path, which terminates before
  printing (80--86), making the context current (88), loading the GL functions and its
  failure path, which prints before terminating (90--95), printing the version string and
  the success line (97--98), clearing and presenting the framebuffer (100--102), the event
  calls (104--105) and the final \<open>glfwTerminate\<close> (107). The clear colour
  \<open>0.2f, 0.3f, 0.4f, 1.0f\<close> is taken as the exact rationals it stands for.
\<close>

definition testOpenGL :: "gl_env \<Rightarrow> glfw_state \<Rightarrow> gl_fault + (trace \<times> glfw_state)" where
  "testOpenGL env s0 =
    gl_bind (GlfwInit (glfw_platform_ok env)) s0 (\<lambda>ok s1.
    if ok \<noteq> RBool True then Inr ([Err ''Failed to initialize GLFW''], s1) else
    gl_bind (GlfwWindowHint CONTEXT_VERSION_MAJOR 3) s1 (\<lambda>_ s2.
    gl_bind (GlfwWindowHint CONTEXT_VERSION_MINOR 3) s2 (\<lambda>_ s3.
    gl_bind (GlfwWindowHint OPENGL_PROFILE GLFW_OPENGL_CORE_PROFILE) s3 (\<lambda>_ s4.
    gl_bind (GlfwCreateWindow 640 480 ''GLFW/Glad Test'' (glfw_window_ok env)) s4 (\<lambda>w s5.
    case w of
      RWindow (Some win) \<Rightarrow>
        gl_bind (GlfwMakeContextCurrent win) s5 (\<lambda>_ s6.
        gl_bind (GladLoadGL (glad_loader_ok env)) s6 (\<lambda>loaded s7.
        if loaded \<noteq> RBool True then
          gl_bind GlfwTerminate s7 (\<lambda>_ s8. Inr ([Err ''Failed to initialize Glad''], s8))
        else
          gl_bind (GlGetString (gl_version env)) s7 (\<lambda>v s8.
          case v of
            RString (Some ver) \<Rightarrow>
              gl_bind (GlClearColor (1/5) (3/10) (2/5) 1) s8 (\<lambda>_ s9.
              gl_bind GlClear s9 (\<lambda>_ s10.
              gl_bind (GlfwSwapBuffers win) s10 (\<lambda>_ s11.
              gl_bind GlfwPollEvents s11 (\<lambda>_ s12.
              gl_bind (GlfwWaitEventsTimeout (1/2)) s12 (\<lambda>_ s13.
              gl_bind GlfwTerminate s13 (\<lambda>_ s14.
                Inr ([Out (''OpenGL version: '' @ ver), Out ''GLFW and Glad are working.''],
                     s14)))))))
          | _ \<Rightarrow> Inl NULL_STRING_INSERT)))
    | _ \<Rightarrow> gl_bind GlfwTerminate s5 (\<lambda>_ s6. Inr ([Err ''Failed to create GLFW window''], s6)))))))"

definition nominal_gl_env :: gl_env where
  "nominal_gl_env = \<lparr>glfw_platform_ok = True, glfw_window_ok = True, glad_loader_ok = True,
                      gl_version = Some ''3.3.0''\<rparr>"

section \<open>Contract of the check\<close>

text \<open>
  What \<open>testOpenGL\<close> promises, as a function of the platform's answers alone: one
  diagnostic line for the first step that fails, the version and success lines otherwise;
  the only fault is writing a null version string to \<open>std::cout\<close>.
\<close>

definition gl_contract :: "gl_env \<Rightarrow> gl_fault + trace" where
  "gl_contract env =
    (if \<not> glfw_platform_ok env then Inr [Err ''Failed to initialize GLFW'']
     else if \<not> glfw_window_ok env then Inr [Err ''Failed to create GLFW window'']
     else if \<not> glad_loader_ok env then Inr [Err ''Failed to initialize Glad'']
     else case gl_version env of
       None \<Rightarrow> Inl NULL_STRING_INSERT
     | Some v \<Rightarrow> Inr [Out (''OpenGL version: '' @ v), Out ''GLFW and Glad are working.''])"

text \<open>The context the window hints of lines 76--78 request: OpenGL 3.3, core profile.\<close>

definition requested_hints :: "glfw_hint \<Rightarrow> int" where
  "requested_hints = default_hints(CONTEXT_VERSION_MAJOR := 3, CONTEXT_VERSION_MINOR := 3,
                                   OPENGL_PROFILE := GLFW_OPENGL_CORE_PROFILE)"

section \<open>Invariant of the library state\<close>

text \<open>
  An initialised library has had one more successful \<open>glfwInit\<close> than effective
  \<open>glfwTerminate\<close>; an uninitialised one as many, and no window or current context.
  A current context belongs to a live window, and GL functions are loaded only while
  a context is current.
\<close>

definition glfw_inv :: "glfw_state \<Rightarrow> bool" where
  "glfw_inv s \<longleftrightarrow>
     (if initialized s then inits s = Suc (terminations s)
      else inits s = terminations s \<and> windows s = [] \<and> current s = None) \<and>
     (case current s of None \<Rightarrow> \<not> gl_loaded s | Some w \<Rightarrow> live_window s w)"

inductive glfw_reachable :: "glfw_state \<Rightarrow> bool" where
  start: "glfw_reachable glfw_start"
| step: "glfw_reachable s \<Longrightarrow> glfw_step op s = Inr (r, s') \<Longrightarrow> glfw_reachable s'"

inductive_cases glfw_reachable_stepE: "glfw_reachable s'"

lemmas glfw_simps [model_defs] = gl_bind_def live_window_def

lemma glfw_inv_start: "glfw_inv glfw_start"
  by (simp add: glfw_inv_def glfw_start_def)

lemma glfw_step_inv: "glfw_step op s = Inr (r, s') \<Longrightarrow> glfw_inv s \<Longrightarrow> glfw_inv s'"
  by (cases op) (auto simp: glfw_inv_def live_window_def split: if_splits option.splits)

lemma glfw_reachable_inv: "glfw_reachable s \<Longrightarrow> glfw_inv s"
proof (induction rule: glfw_reachable.induct)
  case start
  show ?case by (rule glfw_inv_start)
next
  case (step s op r s')
  then show ?case by (blast intro: glfw_step_inv)
qed

text \<open>
  In every state the library can reach through any sequence of calls, once it is
  not initialised, \<open>glfwTerminate\<close> has taken effect exactly as often as \<open>glfwInit\<close>
  succeeded and no window is left.
\<close>

theorem glfw_released_once:
  "glfw_reachable s \<Longrightarrow> \<not> initialized s \<Longrightarrow> terminations s = inits s \<and> windows s = []"
  using glfw_reachable_inv by (fastforce simp: glfw_inv_def)

lemma glfw_released_once_example:
  "glfw_reachable (glfw_start\<lparr>inits := 1, terminations := 1\<rparr>) \<and>
   \<not> initialized (glfw_start\<lparr>inits := 1, terminations := 1\<rparr>) \<and>
   terminations (glfw_start\<lparr>inits := 1, terminations := 1\<rparr>) =
     inits (glfw_start\<lparr>inits := 1, terminations := 1\<rparr>) \<and>
   windows (glfw_start\<lparr>inits := 1, terminations := 1\<rparr>) = []"
proof -
  let ?s1 = "glfw_start\<lparr>initialized := True, hints := default_hints, inits := 1\<rparr>"
  have r1: "glfw_reachable ?s1"
    by (rule glfw_reachable.step [OF glfw_reachable.start, of "GlfwInit True" "RBool True"])
       (simp add: glfw_start_def)
  have "glfw_reachable (glfw_start\<lparr>inits := 1, terminations := 1\<rparr>)"
    by (rule glfw_reachable.step [OF r1, of GlfwTerminate RNone]) (simp add: glfw_start_def)
  then show ?thesis
    using glfw_released_once by (simp add: glfw_start_def)
qed

section \<open>Properties of the check\<close>

text \<open>
  C6: Started on an uninitialised library, \<open>testOpenGL\<close> prints exactly what its
  contract says on every path: the diagnostic of the first failing step, or the version
  and success lines; it never misuses the library, and faults only when the driver's
  version string is null.
\<close>

theorem testOpenGL_contract:
  "\<not> initialized s \<Longrightarrow> map_sum id fst (testOpenGL env s) = gl_contract env"
  by (simp add: testOpenGL_def gl_contract_def glfw_simps split: option.splits)

lemma testOpenGL_contract_witness:
  "\<not> initialized glfw_start \<and>
   map_sum id fst (testOpenGL nominal_gl_env glfw_start) =
     Inr [Out ''OpenGL version: 3.3.0'', Out ''GLFW and Glad are working.'']"
  using testOpenGL_contract [of glfw_start nominal_gl_env]
  by (simp add: glfw_start_def gl_contract_def nominal_gl_env_def)

text \<open>
  C2: On every path that returns, \<open>testOpenGL\<close> leaves the library uninitialised, with
  no window, no current context and no loaded GL functions, and it has called an effective
  \<open>glfwTerminate\<close> exactly once if \<open>glfwInit\<close> succeeded and never otherwise.
\<close>

theorem testOpenGL_releases:
  assumes "glfw_inv s" and "\<not> initialized s" and "testOpenGL env s = Inr (tr, s')"
  shows "\<not> initialized s' \<and> windows s' = [] \<and> current s' = None \<and> \<not> gl_loaded s' \<and>
         inits s' = terminations s' \<and>
         terminations s' = terminations s + (if glfw_platform_ok env then 1 else 0)"
  using assms
  by (auto simp: testOpenGL_def glfw_simps glfw_inv_def split: if_splits option.splits)

lemma testOpenGL_releases_witness:
  "\<exists>tr s'. testOpenGL nominal_gl_env glfw_start = Inr (tr, s') \<and>
     \<not> initialized s' \<and> windows s' = [] \<and> inits s' = terminations s' \<and> terminations s' = 1"
proof -
  obtain tr s' where r: "testOpenGL nominal_gl_env glfw_start = Inr (tr, s')"
    by (simp add: testOpenGL_def glfw_simps nominal_gl_env_def glfw_start_def)
  have "glfw_inv glfw_start" and "\<not> initialized glfw_start"
    by (simp_all add: glfw_inv_start) (simp add: glfw_start_def)
  then have "\<not> initialized s' \<and> windows s' = [] \<and> inits s' = terminations s' \<and>
             terminations s' = 1"
    using testOpenGL_releases [OF _ _ r]
    by (simp add: glfw_start_def nominal_gl_env_def)
  with r show ?thesis by blast
qed

text \<open>
  C23: When initialisation, window creation and loading succeed, \<open>testOpenGL\<close>
  presents exactly one frame, on the window it created, whose context was requested as
  OpenGL 3.3 core, cleared to the colour (0.2, 0.3, 0.4, 1); otherwise nothing is shown.
\<close>

theorem testOpenGL_frame:
  assumes "glfw_inv s" and "\<not> initialized s" and "testOpenGL env s = Inr (tr, s')"
  shows "presented s' = presented s @
           (if glfw_platform_ok env \<and> glfw_window_ok env \<and> glad_loader_ok env
            then [(next_window s, requested_hints, (1/5, 3/10, 2/5, 1))] else [])"
  using assms
  by (auto simp: testOpenGL_def glfw_simps requested_hints_def glfw_inv_def
           split: if_splits option.splits)

lemma testOpenGL_frame_witness:
  "\<exists>tr s'. testOpenGL nominal_gl_env glfw_start = Inr (tr, s') \<and>
     presented s' = [(0, requested_hints, (1/5, 3/10, 2/5, 1))]"
proof -
  obtain tr s' where r: "testOpenGL nominal_gl_env glfw_start = Inr (tr, s')"
    by (simp add: testOpenGL_def glfw_simps nominal_gl_env_def glfw_start_def)
  have "glfw_inv glfw_start" and "\<not> initialized glfw_start"
    by (simp_all add: glfw_inv_start) (simp add: glfw_start_def)
  then have "presented s' = [(0, requested_hints, (1/5, 3/10, 2/5, 1))]"
    using testOpenGL_frame [OF _ _ r]
    by (simp add: glfw_start_def nominal_gl_env_def)
  with r show ?thesis by blast
qed

end
