(* ===== verification/Bullet_Objects.thy ===== *)
theory Bullet_Objects
  imports Prelude
begin

text \<open>
  The heap objects of the physics check \<open>testBullet\<close> (\<open>src/src/main.cxx\<close>, lines
  111--171) and the statements that create, use and destroy them. The store maps an
  address to a live object: its Bullet class, the pointers it keeps from its constructor
  (a dispatcher keeps its collision configuration, the world its dispatcher, broadphase,
  solver and configuration, a rigid body its motion state and shape) and, for a world,
  the rigid bodies added to it. The store also records the order of allocations and of
  deallocations. Addresses are the program's pointer variables, each assigned by one
  \<open>new\<close>.

  A statement faults (\<open>bt_fault\<close>) where C++ would have undefined behaviour: a method
  call that reaches a freed object, a \<open>delete\<close> of a freed pointer, a destructor that
  reaches a freed object. Which objects a call reaches follows the Bullet sources: a
  method of an object may dereference every pointer it keeps, and a world's methods also
  reach its bodies and what they keep; the world's destructor cleans up the broadphase
  proxies of the bodies still added to it (\<open>btCollisionWorld::~btCollisionWorld\<close>), so
  it reaches them, its broadphase and its dispatcher when any body is left; the other
  destructors free only what the object owns itself.
\<close>

section \<open>Objects and the store\<close>

datatype bt_class =
    BtDbvtBroadphase | BtDefaultCollisionConfiguration | BtCollisionDispatcher
  | BtSequentialImpulseConstraintSolver | BtDiscreteDynamicsWorld
  | BtStaticPlaneShape | BtBoxShape | BtDefaultMotionState | BtRigidBody

record bt_obj =
  cls :: bt_class
  held :: "nat list"
  members :: "nat list"

record bt_heap =
  objs :: "nat \<Rightarrow> bt_obj option"
  allocs :: "nat list"
  frees :: "nat list"

definition bt_empty :: bt_heap where
  "bt_empty = \<lparr>objs = (\<lambda>_. None), allocs = [], frees = []\<rparr>"

datatype bt_stmt =
    New nat bt_class "nat list"
  | Use nat
  | UseHeld nat nat
  | AddBody nat nat
  | RemoveBody nat nat
  | Delete nat
  | DeleteHeld nat nat

datatype bt_fault =
    UseAfterFree nat | DoubleFree nat | InvalidPointer nat | WrongClass nat | AlreadyAdded nat

definition live :: "bt_heap \<Rightarrow> nat \<Rightarrow> bool" where
  "live h p \<longleftrightarrow> objs h p \<noteq> None"

text \<open>The pointers an object keeps, read from the store (none for a freed object).\<close>

definition kept :: "bt_heap \<Rightarrow> nat \<Rightarrow> nat list" where
  "kept h p = (case objs h p of None \<Rightarrow> [] | Some ob \<Rightarrow> held ob)"

definition bodies_of :: "bt_heap \<Rightarrow> nat \<Rightarrow> nat list" where
  "bodies_of h p = (case objs h p of None \<Rightarrow> [] | Some ob \<Rightarrow> members ob)"

text \<open>What a method call on \<open>p\<close> reaches, and what the destructor of \<open>p\<close> reaches.\<close>

definition reach :: "bt_heap \<Rightarrow> nat \<Rightarrow> nat list" where
  "reach h p = p # kept h p @ bodies_of h p @ concat (map (kept h) (bodies_of h p))"

definition dtor_reach :: "bt_heap \<Rightarrow> nat \<Rightarrow> nat list" where
  "dtor_reach h p = (if bodies_of h p = [] then [] else bodies_of h p @ kept h p)"

fun check_live :: "bt_heap \<Rightarrow> nat list \<Rightarrow> bt_fault + unit" where
  "check_live h [] = Inr ()"
| "check_live h (p # ps) = (if live h p then check_live h ps else Inl (UseAfterFree p))"

definition has_class :: "bt_heap \<Rightarrow> nat \<Rightarrow> bt_class \<Rightarrow> bool" where
  "has_class h p c \<longleftrightarrow> map_option cls (objs h p) = Some c"

text \<open>\<open>delete p\<close>: freeing a pointer that was freed before is a double free.\<close>

definition bt_delete :: "nat \<Rightarrow> bt_heap \<Rightarrow> bt_fault + bt_heap" where
  "bt_delete p h =
    (if \<not> live h p then Inl (if p \<in> set (allocs h) then DoubleFree p else InvalidPointer p)
     else bindE (check_live h (dtor_reach h p)) (\<lambda>_.
       Inr (h\<lparr>objs := (objs h)(p := None), frees := frees h @ [p]\<rparr>)))"

fun bt_exec :: "bt_stmt \<Rightarrow> bt_heap \<Rightarrow> bt_fault + bt_heap" where
  "bt_exec (New p c args) h =
    (if p \<in> set (allocs h) then Inl (InvalidPointer p)
     else bindE (check_live h args) (\<lambda>_.
       Inr (h\<lparr>objs := (objs h)(p \<mapsto> \<lparr>cls = c, held = args, members = []\<rparr>),
              allocs := allocs h @ [p]\<rparr>)))"
| "bt_exec (Use p) h =
    (if \<not> live h p then Inl (UseAfterFree p) else bindE (check_live h (reach h p)) (\<lambda>_. Inr h))"
| "bt_exec (UseHeld p k) h =
    (if \<not> live h p then Inl (UseAfterFree p)
     else if length (kept h p) \<le> k then Inl (InvalidPointer p)
     else bindE (check_live h (reach h (kept h p ! k))) (\<lambda>_. Inr h))"
| "bt_exec (AddBody w b) h =
    (if \<not> has_class h w BtDiscreteDynamicsWorld then Inl (WrongClass w)
     else if \<not> has_class h b BtRigidBody then Inl (WrongClass b)
     else if b \<in> set (bodies_of h w) then Inl (AlreadyAdded b)
     else bindE (check_live h (reach h w @ kept h b)) (\<lambda>_.
       Inr (h\<lparr>objs := (objs h)(w \<mapsto> (the (objs h w))\<lparr>members := bodies_of h w @ [b]\<rparr>)\<rparr>)))"
| "bt_exec (RemoveBody w b) h =
    (if \<not> has_class h w BtDiscreteDynamicsWorld then Inl (WrongClass w)
     else bindE (check_live h (reach h w)) (\<lambda>_.
       Inr (h\<lparr>objs := (objs h)(w \<mapsto> (the (objs h w))\<lparr>members := removeAll b (bodies_of h w)\<rparr>)\<rparr>)))"
| "bt_exec (Delete p) h = bt_delete p h"
| "bt_exec (DeleteHeld p k) h =
    (if \<not> live h p then Inl (UseAfterFree p)
     else if length (kept h p) \<le> k then Inl (InvalidPointer p)
     else bt_delete (kept h p ! k) h)"

fun bt_run :: "bt_stmt list \<Rightarrow> bt_heap \<Rightarrow> bt_fault + bt_heap" where
  "bt_run [] h = Inr h"
| "bt_run (s # ss) h = bindE (bt_exec s h) (bt_run ss)"

lemma bt_run_append [simp]: "bt_run (xs @ ys) h = bindE (bt_run xs h) (bt_run ys)"
proof (induction xs arbitrary: h)
  case (Cons s xs)
  then show ?case by (cases "bt_exec s h") simp_all
qed simp

end
