(* ===== verification/Bullet_Dynamics.thy ===== *)
theory Bullet_Dynamics
  imports Prelude
begin

text \<open>
  The numbers of the physics check: the rigid bodies of a \<open>btDiscreteDynamicsWorld\<close>,
  \<open>stepSimulation\<close> with its fixed internal time step, the integrator of a single step and
  the transform a body's motion state reports afterwards. Quantities are exact rationals
  where Bullet computes in single-precision floats. Contacts are not modelled: the
  theorems of \<open>Bullet_Check\<close> show that in the run of the source the box never comes
  near the ground, so no contact point is ever generated and the free-flight equations
  below are the whole dynamics of that run. Sleeping (deactivation) is not modelled
  either; it needs a body whose speed stays under a threshold, which a falling box never
  has.
\<close>

type_synonym vec3 = "rat \<times> rat \<times> rat"

definition vadd :: "vec3 \<Rightarrow> vec3 \<Rightarrow> vec3" where
  "vadd a b = (case (a, b) of ((x, y, z), (x', y', z')) \<Rightarrow> (x + x', y + y', z + z'))"

definition vscale :: "rat \<Rightarrow> vec3 \<Rightarrow> vec3" where
  "vscale k a = (case a of (x, y, z) \<Rightarrow> (k * x, k * y, k * z))"

definition vy :: "vec3 \<Rightarrow> rat" where
  "vy a = fst (snd a)"

lemma vec3_simps [simp]:
  "vadd (x, y, z) (x', y', z') = (x + x', y + y', z + z')"
  "vscale k (x, y, z) = (k * x, k * y, k * z)"
  "vy (x, y, z) = y"
  by (simp_all add: vadd_def vscale_def vy_def)

section \<open>Bodies and worlds\<close>

text \<open>
  A rigid body as \<open>btRigidBody\<close> keeps it: its inverse mass (zero for a static body),
  the origin of its centre-of-mass transform, its linear velocity, its gravity
  acceleration, and the origin last written to its motion state. Orientation and angular
  motion are not modelled: no torque acts in the run, so they never change.
\<close>

record rigid_body =
  inv_mass :: rat
  origin :: vec3
  lin_vel :: vec3
  body_gravity :: vec3
  ms_origin :: vec3

record dyn_world =
  gravity :: vec3
  dbodies :: "(nat \<times> rigid_body) list"
  local_time :: rat
  latency_interpolation :: bool

text \<open>
  \<open>btRigidBody(btRigidBodyConstructionInfo(mass, motionState, shape, inertia))\<close>: the
  body starts where its motion state says, at rest; a zero mass makes it static.
\<close>

definition make_body :: "rat \<Rightarrow> vec3 \<Rightarrow> rigid_body" where
  "make_body mass start =
     \<lparr>inv_mass = (if mass = 0 then 0 else 1 / mass), origin = start, lin_vel = (0, 0, 0),
      body_gravity = (0, 0, 0), ms_origin = start\<rparr>"

definition new_world :: dyn_world where
  "new_world = \<lparr>gravity = (0, -10, 0), dbodies = [], local_time = 0,
                latency_interpolation = True\<rparr>"

text \<open>\<open>btDiscreteDynamicsWorld::setGravity\<close>.\<close>

definition set_gravity :: "vec3 \<Rightarrow> dyn_world \<Rightarrow> dyn_world" where
  "set_gravity g w = w\<lparr>gravity := g\<rparr>"

text \<open>
  \<open>btDiscreteDynamicsWorld::addRigidBody\<close>: a body that is not static takes the world's
  gravity.
\<close>

definition add_rigid_body :: "nat \<Rightarrow> rigid_body \<Rightarrow> dyn_world \<Rightarrow> dyn_world" where
  "add_rigid_body p b w =
     w\<lparr>dbodies := dbodies w @
        [(p, if inv_mass b = 0 then b else b\<lparr>body_gravity := gravity w\<rparr>)]\<rparr>"

definition remove_rigid_body :: "nat \<Rightarrow> dyn_world \<Rightarrow> dyn_world" where
  "remove_rigid_body p w = w\<lparr>dbodies := filter (\<lambda>e. fst e \<noteq> p) (dbodies w)\<rparr>"

section \<open>Stepping\<close>

text \<open>
  One internal step of length \<open>dt\<close> (\<open>internalSingleStepSimulation\<close>): the solver adds
  the gravity impulse to the velocity of every body that is not static, and
  \<open>integrateTransforms\<close> moves it with the new velocity (semi-implicit Euler). Static
  bodies are neither integrated nor moved.
\<close>

definition integrate_body :: "rat \<Rightarrow> rigid_body \<Rightarrow> rigid_body" where
  "integrate_body dt b =
     (if inv_mass b = 0 then b
      else let v = vadd (lin_vel b) (vscale dt (body_gravity b))
           in b\<lparr>lin_vel := v, origin := vadd (origin b) (vscale dt v)\<rparr>)"

definition single_step :: "rat \<Rightarrow> dyn_world \<Rightarrow> dyn_world" where
  "single_step dt w = w\<lparr>dbodies := map (\<lambda>(p, b). (p, integrate_body dt b)) (dbodies w)\<rparr>"

text \<open>
  \<open>synchronizeMotionStates\<close>: each body that is not static writes to its motion state its
  transform extrapolated by the time left in the accumulator, less one fixed step when
  latency interpolation is on (the default since Bullet 2.83).
\<close>

definition sync_body :: "rat \<Rightarrow> rigid_body \<Rightarrow> rigid_body" where
  "sync_body offset b =
     (if inv_mass b = 0 then b
      else b\<lparr>ms_origin := vadd (origin b) (vscale offset (lin_vel b))\<rparr>)"

definition sync_motion_states :: "rat \<Rightarrow> dyn_world \<Rightarrow> dyn_world" where
  "sync_motion_states fixed w =
     (let offset = (if latency_interpolation w then local_time w - fixed else local_time w)
      in w\<lparr>dbodies := map (\<lambda>(p, b). (p, sync_body offset b)) (dbodies w)\<rparr>)"

text \<open>
  \<open>stepSimulation(timeStep, maxSubSteps, fixedTimeStep)\<close> with \<open>maxSubSteps > 0\<close>:
  the time step is added to the accumulator, as many whole fixed steps as it holds are
  taken out of it, at most \<open>maxSubSteps\<close> of them are simulated, and the motion states are
  synchronised.
\<close>

definition substeps :: "rat \<Rightarrow> rat \<Rightarrow> nat" where
  "substeps acc fixed = (if fixed \<le> acc then nat \<lfloor>acc / fixed\<rfloor> else 0)"

definition step_simulation :: "rat \<Rightarrow> nat \<Rightarrow> rat \<Rightarrow> dyn_world \<Rightarrow> dyn_world" where
  "step_simulation ts max_sub fixed w =
     (let acc = local_time w + ts;
          n = substeps acc fixed;
          w1 = (single_step fixed ^^ min n max_sub) (w\<lparr>local_time := acc - of_nat n * fixed\<rparr>)
      in sync_motion_states fixed w1)"

text \<open>\<open>getMotionState()->getWorldTransform(trans)\<close>, read from the body at \<open>p\<close>.\<close>

definition motion_state_origin :: "nat \<Rightarrow> dyn_world \<Rightarrow> vec3 option" where
  "motion_state_origin p w = map_option ms_origin (map_of (dbodies w) p)"

section \<open>Generic facts\<close>

lemma integrate_static [simp]: "inv_mass b = 0 \<Longrightarrow> integrate_body dt b = b"
  by (simp add: integrate_body_def)

lemma sync_static [simp]: "inv_mass b = 0 \<Longrightarrow> sync_body off b = b"
  by (simp add: sync_body_def)

lemma substeps_one [simp]: "0 < fixed \<Longrightarrow> substeps fixed fixed = 1"
  by (simp add: substeps_def)

end
