(* ===== verification/Bullet_Check.thy ===== *)
theory Bullet_Check
  imports Bullet_Objects Bullet_Dynamics
begin

text \<open>
  The physics check \<open>testBullet\<close> (\<open>src/src/main.cxx\<close>, lines 111--171), composed of
  the object store of \<open>Bullet_Objects\<close> and the dynamics of \<open>Bullet_Dynamics\<close>. The
  pointer variables of the source are addresses 0--10 in the order of their \<open>new\<close>.
  \<open>bullet_setup\<close> is lines 113--141 as store statements and \<open>bullet_world\<close> the same
  lines as dynamics (gravity, a static ground body at height -1, a box of mass 1 at height
  50); \<open>bullet_loop\<close> is the loop of lines 143--154 (a world step, a read of the box's
  motion state, a printed height on every twentieth iteration); \<open>bullet_teardown\<close> is
  lines 156--168. The run of the loop is computed in closed form: after \<open>k\<close> steps the
  world is \<open>world_after k\<close>, the box at height \<open>50 - k(k+1)/720\<close> with velocity
  \<open>-k/6\<close>, and its motion state, one step behind under latency interpolation, at
  \<open>50 - k(k-1)/720\<close>.
\<close>

section \<open>The program\<close>

definition broadphase :: nat where "broadphase = 0"
definition collisionConfiguration :: nat where "collisionConfiguration = 1"
definition dispatcher :: nat where "dispatcher = 2"
definition solver :: nat where "solver = 3"
definition dynamicsWorld :: nat where "dynamicsWorld = 4"
definition groundShape :: nat where "groundShape = 5"
definition fallShape :: nat where "fallShape = 6"
definition groundMotionState :: nat where "groundMotionState = 7"
definition groundRigidBody :: nat where "groundRigidBody = 8"
definition fallMotionState :: nat where "fallMotionState = 9"
definition fallRigidBody :: nat where "fallRigidBody = 10"

lemmas bullet_vars = broadphase_def collisionConfiguration_def dispatcher_def solver_def
  dynamicsWorld_def groundShape_def fallShape_def groundMotionState_def groundRigidBody_def
  fallMotionState_def fallRigidBody_def

text \<open>Lines 113--141: construction, \<open>setGravity\<close> (a call on the world),
  \<open>calculateLocalInertia\<close> (a call on the box shape) and the two \<open>addRigidBody\<close>.\<close>

definition bullet_setup :: "bt_stmt list" where
  "bullet_setup =
    [New broadphase BtDbvtBroadphase [],
     New collisionConfiguration BtDefaultCollisionConfiguration [],
     New dispatcher BtCollisionDispatcher [collisionConfiguration],
     New solver BtSequentialImpulseConstraintSolver [],
     New dynamicsWorld BtDiscreteDynamicsWorld [dispatcher, broadphase, solver, collisionConfiguration],
     Use dynamicsWorld,
     New groundShape BtStaticPlaneShape [],
     New fallShape BtBoxShape [],
     New groundMotionState BtDefaultMotionState [],
     New groundRigidBody BtRigidBody [groundMotionState, groundShape],
     New fallMotionState BtDefaultMotionState [],
     Use fallShape,
     New fallRigidBody BtRigidBody [fallMotionState, fallShape],
     AddBody dynamicsWorld groundRigidBody,
     AddBody dynamicsWorld fallRigidBody]"

text \<open>The dynamics the same lines set up.\<close>

definition bullet_world :: dyn_world where
  "bullet_world =
     add_rigid_body fallRigidBody (make_body 1 (0, 50, 0))
       (add_rigid_body groundRigidBody (make_body 0 (0, -1, 0))
         (set_gravity (0, -10, 0) new_world))"

text \<open>
  Lines 143--154, from iteration \<open>i\<close> with \<open>n\<close> iterations left: \<open>stepSimulation(1/60.f, 10)\<close>
  is a call on the world, \<open>fallRigidBody->getMotionState()->getWorldTransform(trans)\<close> a
  call through the body's first kept pointer.
\<close>

fun bullet_loop :: "nat \<Rightarrow> nat \<Rightarrow> bt_heap \<Rightarrow> dyn_world \<Rightarrow> bt_fault + (trace \<times> bt_heap \<times> dyn_world)" where
  "bullet_loop i 0 h w = Inr ([], h, w)"
| "bullet_loop i (Suc n) h w =
     bindE (bt_exec (Use dynamicsWorld) h) (\<lambda>h1.
     let w1 = step_simulation (1 / 60) 10 (1 / 60) w in
     bindE (bt_exec (UseHeld fallRigidBody 0) h1) (\<lambda>h2.
     case motion_state_origin fallRigidBody w1 of
       None \<Rightarrow> Inl (InvalidPointer fallRigidBody)
     | Some t \<Rightarrow>
         bindE (bullet_loop (Suc i) n h2 w1) (\<lambda>(tr, h3, w3).
           Inr ((if i mod 20 = 0 then [OutValue ''Bullet Physics: box height: '' (vy t)] else [])
                @ tr, h3, w3))))"

text \<open>Lines 156--168: \<open>delete b->getMotionState()\<close> is \<open>DeleteHeld b 0\<close>.\<close>

definition bullet_teardown :: "bt_stmt list" where
  "bullet_teardown =
    [RemoveBody dynamicsWorld fallRigidBody,
     RemoveBody dynamicsWorld groundRigidBody,
     DeleteHeld fallRigidBody 0,
     Delete fallRigidBody,
     DeleteHeld groundRigidBody 0,
     Delete groundRigidBody,
     Delete fallShape,
     Delete groundShape,
     Delete dynamicsWorld,
     Delete solver,
     Delete dispatcher,
     Delete collisionConfiguration,
     Delete broadphase]"

text \<open>The whole check, ending with the success line of line 170.\<close>

definition testBullet :: "bt_fault + (trace \<times> bt_heap \<times> dyn_world)" where
  "testBullet =
     bindE (bt_run bullet_setup bt_empty) (\<lambda>h.
     bindE (bullet_loop 0 100 h bullet_world) (\<lambda>(tr, h1, w1).
     bindE (bt_run bullet_teardown h1) (\<lambda>h2.
       Inr (tr @ [Out ''Bullet Physics is working.''], h2,
            remove_rigid_body groundRigidBody (remove_rigid_body fallRigidBody w1)))))"

text \<open>The static plane of line 122 lies at height 1 above its body's origin; the box of
  line 123 has half extent 1.\<close>

definition ground_plane_constant :: rat where "ground_plane_constant = 1"
definition fall_half_extent :: rat where "fall_half_extent = 1"

text \<open>Height of the bottom face of the box above the ground plane.\<close>

definition box_clearance :: "dyn_world \<Rightarrow> rat option" where
  "box_clearance w =
     (case (map_of (dbodies w) fallRigidBody, map_of (dbodies w) groundRigidBody) of
        (Some b, Some g) \<Rightarrow>
          Some (vy (origin b) - fall_half_extent - (vy (origin g) + ground_plane_constant))
      | _ \<Rightarrow> None)"

section \<open>The run in closed form\<close>

definition ground_body :: rigid_body where
  "ground_body = make_body 0 (0, -1, 0)"

definition box_after :: "nat \<Rightarrow> rigid_body" where
  "box_after k =
     \<lparr>inv_mass = 1, origin = (0, 50 - of_nat k * of_nat (k + 1) / 720, 0),
      lin_vel = (0, - of_nat k / 6, 0), body_gravity = (0, -10, 0),
      ms_origin = (0, 50 - of_nat k * (of_nat k - 1) / 720, 0)\<rparr>"

definition world_after :: "nat \<Rightarrow> dyn_world" where
  "world_after k =
     \<lparr>gravity = (0, -10, 0), dbodies = [(groundRigidBody, ground_body), (fallRigidBody, box_after k)],
      local_time = 0, latency_interpolation = True\<rparr>"

definition box_height :: "nat \<Rightarrow> rat" where
  "box_height k = vy (ms_origin (box_after k))"

fun loop_samples :: "nat \<Rightarrow> nat \<Rightarrow> nat \<Rightarrow> trace" where
  "loop_samples i k 0 = []"
| "loop_samples i k (Suc n) =
     (if i mod 20 = 0 then [OutValue ''Bullet Physics: box height: '' (box_height (Suc k))] else [])
     @ loop_samples (Suc i) (Suc k) n"

text \<open>One internal step of 1/60 second followed by the motion-state synchronisation.\<close>

definition loop_step :: "dyn_world \<Rightarrow> dyn_world" where
  "loop_step w = sync_motion_states (1 / 60) (single_step (1 / 60) w)"

lemmas bt_defs = live_def kept_def bodies_of_def reach_def dtor_reach_def has_class_def bt_delete_def

lemma bullet_world_after_0: "bullet_world = world_after 0"
  by (simp add: bullet_world_def world_after_def add_rigid_body_def make_body_def set_gravity_def
      new_world_def ground_body_def box_after_def)

lemma step_world_after:
  "step_simulation (1 / 60) 10 (1 / 60) (world_after k) = world_after (Suc k)"
  by (simp add: step_simulation_def world_after_def single_step_def sync_motion_states_def
      sync_body_def integrate_body_def ground_body_def make_body_def box_after_def bullet_vars
      field_simps)


lemma motion_state_world_after [simp]:
  "motion_state_origin fallRigidBody (world_after k) = Some (ms_origin (box_after k))"
  by (simp add: motion_state_origin_def world_after_def bullet_vars)

lemma bullet_loop_world_after:
  assumes "bt_exec (Use dynamicsWorld) h = Inr h" and "bt_exec (UseHeld fallRigidBody 0) h = Inr h"
  shows "bullet_loop i n h (world_after k) = Inr (loop_samples i k n, h, world_after (k + n))"
  using assms
proof (induction n arbitrary: i k)
  case 0
  then show ?case by simp
next
  case (Suc n)
  then show ?case
    by (simp add: step_world_after box_height_def)
qed


lemma loop_samples_add:
  "loop_samples i k (m + n) = loop_samples i k m @ loop_samples (i + m) (k + m) n"
  by (induction m arbitrary: i k) simp_all

lemma loop_samples_none:
  "(\<forall>j < m. (i + j) mod 20 \<noteq> 0) \<Longrightarrow> loop_samples i k m = []"
proof (induction m arbitrary: i k)
  case (Suc m)
  then have "i mod 20 \<noteq> 0" and "\<forall>j < m. (Suc i + j) mod 20 \<noteq> 0"
    by (metis add_0_right zero_less_Suc, metis add_Suc Suc_less_eq add_Suc_right)
  with Suc.IH show ?case by simp
qed simp

lemma loop_samples_block:
  assumes "i mod 20 = 0"
  shows "loop_samples i k (20 + n) =
           OutValue ''Bullet Physics: box height: '' (box_height (Suc k)) # loop_samples (i + 20) (k + 20) n"
proof -
  have "\<forall>j < 19. (Suc i + j) mod 20 \<noteq> 0"
  proof (intro allI impI)
    fix j :: nat
    assume "j < 19"
    moreover from assms obtain q where "i = 20 * q" by auto
    ultimately show "(Suc i + j) mod 20 \<noteq> 0" by simp
  qed
  then have "loop_samples (Suc i) (Suc k) 19 = []"
    by (rule loop_samples_none)
  moreover have "loop_samples i k (1 + 19) = loop_samples i k 1 @ loop_samples (Suc i) (Suc k) 19"
    by (simp only: loop_samples_add) simp
  ultimately have "loop_samples i k 20 = [OutValue ''Bullet Physics: box height: '' (box_height (Suc k))]"
    using assms by simp
  then show ?thesis
    using loop_samples_add [of i k 20 n] by simp
qed


lemma loop_samples_100:
  "loop_samples 0 0 100 =
     map (\<lambda>k. OutValue ''Bullet Physics: box height: '' (box_height (Suc k))) [0, 20, 40, 60, 80]"
proof -
  have b1: "loop_samples 0 0 100 =
      OutValue ''Bullet Physics: box height: '' (box_height 1) # loop_samples 20 20 80"
    using loop_samples_block [of 0 0 80] by simp
  have b2: "loop_samples 20 20 80 =
      OutValue ''Bullet Physics: box height: '' (box_height 21) # loop_samples 40 40 60"
    using loop_samples_block [of 20 20 60] by simp
  have b3: "loop_samples 40 40 60 =
      OutValue ''Bullet Physics: box height: '' (box_height 41) # loop_samples 60 60 40"
    using loop_samples_block [of 40 40 40] by simp
  have b4: "loop_samples 60 60 40 =
      OutValue ''Bullet Physics: box height: '' (box_height 61) # loop_samples 80 80 20"
    using loop_samples_block [of 60 60 20] by simp
  have b5: "loop_samples 80 80 20 =
      [OutValue ''Bullet Physics: box height: '' (box_height 81)]"
    using loop_samples_block [of 80 80 0] by simp
  show ?thesis
    by (simp add: b1 b2 b3 b4 b5)
qed


lemma bullet_heap_run:
  "\<exists>h h'. bt_run bullet_setup bt_empty = Inr h \<and>
     bt_exec (Use dynamicsWorld) h = Inr h \<and> bt_exec (UseHeld fallRigidBody 0) h = Inr h \<and>
     bt_run bullet_teardown h = Inr h' \<and>
     objs h' = (\<lambda>_. None) \<and>
     allocs h' = [broadphase, collisionConfiguration, dispatcher, solver, dynamicsWorld,
                  groundShape, fallShape, groundMotionState, groundRigidBody, fallMotionState,
                  fallRigidBody] \<and>
     frees h' = [fallMotionState, fallRigidBody, groundMotionState, groundRigidBody, fallShape,
                 groundShape, dynamicsWorld, solver, dispatcher, collisionConfiguration, broadphase]"
  by (simp add: bullet_setup_def bullet_teardown_def bt_empty_def bt_defs bullet_vars fun_eq_iff)

lemma testBullet_result:
  "\<exists>h w. testBullet = Inr (loop_samples 0 0 100 @ [Out ''Bullet Physics is working.''], h, w) \<and>
     objs h = (\<lambda>_. None) \<and>
     allocs h = [broadphase, collisionConfiguration, dispatcher, solver, dynamicsWorld,
                  groundShape, fallShape, groundMotionState, groundRigidBody, fallMotionState,
                  fallRigidBody] \<and>
     frees h = [fallMotionState, fallRigidBody, groundMotionState, groundRigidBody, fallShape,
                 groundShape, dynamicsWorld, solver, dispatcher, collisionConfiguration, broadphase]"
proof -
  obtain h h' where "bt_run bullet_setup bt_empty = Inr h" and
     "bt_exec (Use dynamicsWorld) h = Inr h" and "bt_exec (UseHeld fallRigidBody 0) h = Inr h" and
     "bt_run bullet_teardown h = Inr h'" and "objs h' = (\<lambda>_. None)" and
     "allocs h' = [broadphase, collisionConfiguration, dispatcher, solver, dynamicsWorld,
                  groundShape, fallShape, groundMotionState, groundRigidBody, fallMotionState,
                  fallRigidBody]" and
     "frees h' = [fallMotionState, fallRigidBody, groundMotionState, groundRigidBody, fallShape,
                 groundShape, dynamicsWorld, solver, dispatcher, collisionConfiguration, broadphase]"
    using bullet_heap_run by blast
  then show ?thesis
    by (simp add: testBullet_def bullet_world_after_0 bullet_loop_world_after)
qed


section \<open>The loop over any number of iterations\<close>

lemma bt_exec_use_same:
  "bt_exec (Use p) h = Inr h' \<Longrightarrow> h' = h"
  "bt_exec (UseHeld p k) h = Inr h' \<Longrightarrow> h' = h"
  by (auto split: if_splits)

lemma bullet_loop_Inr:
  "bullet_loop i n h (world_after k) = Inr (tr, h', w) \<Longrightarrow>
     tr = loop_samples i k n \<and> w = world_after (k + n) \<and> h' = h"
proof (induction n arbitrary: i k h tr)
  case 0
  then show ?case by simp
next
  case (Suc n)
  from Suc.prems obtain h1 h2 tr' where
    u1: "bt_exec (Use dynamicsWorld) h = Inr h1" and
    u2: "bt_exec (UseHeld fallRigidBody 0) h1 = Inr h2" and
    r: "bullet_loop (Suc i) n h2 (world_after (Suc k)) = Inr (tr', h', w)" and
    t: "tr = (if i mod 20 = 0 then [OutValue ''Bullet Physics: box height: '' (box_height (Suc k))]
              else []) @ tr'"
    by (auto simp: step_world_after box_height_def simp del: bt_exec.simps split: prod.splits)
  have "h1 = h" and "h2 = h"
    using bt_exec_use_same(1) [OF u1] bt_exec_use_same(2) [OF u2] by simp_all
  with Suc.IH [OF r] t show ?case by simp
qed

section \<open>Heights and clearance\<close>

lemma box_height_closed: "box_height k = 50 - of_nat k * (of_nat k - 1) / 720"
  by (simp add: box_height_def box_after_def)

lemma box_height_decreasing:
  assumes "1 \<le> a" and "a < b"
  shows "box_height b < box_height a"
proof -
  have "(of_nat b * (of_nat b - 1) - of_nat a * (of_nat a - 1) :: rat) =
        (of_nat b - of_nat a) * (of_nat b + of_nat a - 1)"
    by (simp add: algebra_simps)
  moreover have "(0::rat) < of_nat b - of_nat a" and "(0::rat) < of_nat b + of_nat a - 1"
    using assms by simp_all
  ultimately have "of_nat a * (of_nat a - 1) < (of_nat b * (of_nat b - 1) :: rat)"
    by (metis diff_gt_0_iff_gt mult_pos_pos)
  then show ?thesis
    by (simp add: box_height_closed divide_strict_right_mono)
qed

lemma loop_samples_below:
  "v \<in> set (printed_values (loop_samples i k n)) \<Longrightarrow> v \<le> box_height (Suc k)"
proof (induction n arbitrary: i k)
  case (Suc n)
  have "box_height (Suc (Suc k)) < box_height (Suc k)"
    by (rule box_height_decreasing) simp_all
  with Suc show ?case
    by (fastforce split: if_splits)
qed simp

lemma loop_samples_sorted: "sorted_wrt (>) (printed_values (loop_samples i k n))"
proof (induction n arbitrary: i k)
  case (Suc n)
  have "box_height (Suc (Suc k)) < box_height (Suc k)"
    by (rule box_height_decreasing) simp_all
  then have "\<forall>v \<in> set (printed_values (loop_samples (Suc i) (Suc k) n)). v < box_height (Suc k)"
    using loop_samples_below by fastforce
  with Suc.IH show ?case
    by (simp add: sorted_wrt_append)
qed simp

lemma clearance_world_after:
  "box_clearance (world_after n) = Some (49 - of_nat (n * (n + 1)) / 720)"
  by (simp add: box_clearance_def world_after_def bullet_vars box_after_def ground_body_def
      make_body_def fall_half_extent_def ground_plane_constant_def algebra_simps)

lemma clearance_positive: "(0::rat) < 49 - of_nat m / 720 \<longleftrightarrow> m < 35280"
proof -
  have "(0::rat) < 49 - of_nat m / 720 \<longleftrightarrow> (of_nat m :: rat) < of_nat (35280::nat)"
    by (simp add: field_simps)
  then show ?thesis by (simp only: of_nat_less_iff)
qed

lemma steps_before_contact: "n * (n + 1) < (35280::nat) \<longleftrightarrow> n \<le> 187"
proof
  assume "n * (n + 1) < 35280"
  show "n \<le> 187"
  proof (rule ccontr)
    assume "\<not> n \<le> 187"
    then have "188 * 189 \<le> n * (n + 1)" by (intro mult_le_mono) simp_all
    with \<open>n * (n + 1) < 35280\<close> show False by simp
  qed
next
  assume "n \<le> 187"
  then have "n * (n + 1) \<le> 187 * 188" by (intro mult_le_mono) simp_all
  then show "n * (n + 1) < 35280" by simp
qed

section \<open>Properties of the check\<close>

text \<open>
  C1: \<open>testBullet\<close> runs without a fault of the object store (no use after free, no
  double free, no destructor reaching a freed object) and ends with no live object: each of
  the eleven objects it allocates is freed exactly once.
\<close>

theorem testBullet_lifecycle:
  "\<exists>tr h w. testBullet = Inr (tr, h, w) \<and> (\<forall>p. \<not> live h p) \<and>
     distinct (allocs h) \<and> distinct (frees h) \<and> set (frees h) = set (allocs h)"
proof -
  obtain h w where "testBullet = Inr (loop_samples 0 0 100 @ [Out ''Bullet Physics is working.''], h, w)"
    and "objs h = (\<lambda>_. None)"
    and "allocs h = [broadphase, collisionConfiguration, dispatcher, solver, dynamicsWorld,
                  groundShape, fallShape, groundMotionState, groundRigidBody, fallMotionState,
                  fallRigidBody]"
    and "frees h = [fallMotionState, fallRigidBody, groundMotionState, groundRigidBody, fallShape,
                 groundShape, dynamicsWorld, solver, dispatcher, collisionConfiguration, broadphase]"
    using testBullet_result by blast
  then show ?thesis
    by (intro exI [of _ "loop_samples 0 0 100 @ [Out ''Bullet Physics is working.'']"] exI [of _ h]
        exI [of _ w]) (auto simp: live_def bullet_vars)
qed

text \<open>
  C5: \<open>testBullet\<close> prints the box height on iterations 0, 20, 40, 60 and 80 of its loop
  (the heights 50, 593/12, 859/18, 539/12 and 41 that its motion state reports after steps
  1, 21, 41, 61 and 81) and then its success line, and nothing else.
\<close>

theorem testBullet_output:
  "\<exists>h w. testBullet =
     Inr ([OutValue ''Bullet Physics: box height: '' 50,
           OutValue ''Bullet Physics: box height: '' (593 / 12),
           OutValue ''Bullet Physics: box height: '' (859 / 18),
           OutValue ''Bullet Physics: box height: '' (539 / 12),
           OutValue ''Bullet Physics: box height: '' 41,
           Out ''Bullet Physics is working.''], h, w)"
proof -
  obtain h w where r: "testBullet =
      Inr (loop_samples 0 0 100 @ [Out ''Bullet Physics is working.''], h, w)"
    using testBullet_result by blast
  have "loop_samples 0 0 100 =
     [OutValue ''Bullet Physics: box height: '' 50,
      OutValue ''Bullet Physics: box height: '' (593 / 12),
      OutValue ''Bullet Physics: box height: '' (859 / 18),
      OutValue ''Bullet Physics: box height: '' (539 / 12),
      OutValue ''Bullet Physics: box height: '' 41]"
    by (simp add: loop_samples_100 box_height_closed)
  with r show ?thesis by auto
qed

text \<open>
  C20: \<open>testBullet\<close> frees its objects in the order fall motion state, fall body, ground
  motion state, ground body, fall shape, ground shape, world, solver, dispatcher,
  configuration, broadphase: not the reverse of the construction order, since each motion
  state is freed before the body that keeps it (harmlessly, as the body's destructor does
  not reach it).
\<close>

theorem testBullet_free_order:
  "\<exists>tr h w. testBullet = Inr (tr, h, w) \<and>
     frees h = [fallMotionState, fallRigidBody, groundMotionState, groundRigidBody, fallShape,
                groundShape, dynamicsWorld, solver, dispatcher, collisionConfiguration, broadphase] \<and>
     frees h \<noteq> rev (allocs h)"
proof -
  obtain h w where "testBullet = Inr (loop_samples 0 0 100 @ [Out ''Bullet Physics is working.''], h, w)"
    and "allocs h = [broadphase, collisionConfiguration, dispatcher, solver, dynamicsWorld,
                  groundShape, fallShape, groundMotionState, groundRigidBody, fallMotionState,
                  fallRigidBody]"
    and "frees h = [fallMotionState, fallRigidBody, groundMotionState, groundRigidBody, fallShape,
                 groundShape, dynamicsWorld, solver, dispatcher, collisionConfiguration, broadphase]"
    using testBullet_result by blast
  then show ?thesis
    by (intro exI [of _ "loop_samples 0 0 100 @ [Out ''Bullet Physics is working.'']"] exI [of _ h]
        exI [of _ w]) (simp add: bullet_vars)
qed

text \<open>
  C11: Over any number of iterations run from the world the setup builds, the heights the
  simulation loop prints strictly decrease: the box falls.
\<close>

theorem bullet_loop_heights_decrease:
  "bullet_loop 0 n h bullet_world = Inr (tr, h', w) \<Longrightarrow> sorted_wrt (>) (printed_values tr)"
  using bullet_loop_Inr [of 0 n h 0] loop_samples_sorted by (simp add: bullet_world_after_0)

text \<open>
  C12: However many iterations the simulation loop runs, the static ground body (mass 0) is
  exactly as the setup made it: it never moves.
\<close>

theorem bullet_loop_ground_fixed:
  "bullet_loop i n h bullet_world = Inr (tr, h', w) \<Longrightarrow>
     map_of (dbodies w) groundRigidBody = Some (make_body 0 (0, -1, 0))"
  using bullet_loop_Inr [of i n h 0]
  by (simp add: bullet_world_after_0 world_after_def ground_body_def)

text \<open>
  C13: After n iterations of the simulation loop the bottom face of the box is strictly above
  the ground plane exactly when n is at most 187: the 100 iterations of the source never
  bring the box into contact, and free flight would reach the plane at step 188.
\<close>

theorem bullet_loop_clearance:
  "bullet_loop i n h bullet_world = Inr (tr, h', w) \<Longrightarrow>
     \<exists>c. box_clearance w = Some c \<and> (0 < c \<longleftrightarrow> n \<le> 187)"
proof -
  assume "bullet_loop i n h bullet_world = Inr (tr, h', w)"
  then have "w = world_after n"
    using bullet_loop_Inr [of i n h 0] by (simp add: bullet_world_after_0)
  moreover have "(0::rat) < 49 - of_nat (n * (n + 1)) / 720 \<longleftrightarrow> n \<le> 187"
    using clearance_positive [of "n * (n + 1)"] steps_before_contact by blast
  ultimately show ?thesis
    using clearance_world_after by blast
qed

lemma bullet_loop_100_run:
  "\<exists>h. bullet_loop 0 100 h bullet_world = Inr (loop_samples 0 0 100, h, world_after 100)"
  using bullet_heap_run bullet_loop_world_after [of h 0 100 0 for h]
  by (auto simp: bullet_world_after_0)

lemma bullet_loop_heights_decrease_witness:
  "\<exists>h tr h' w. bullet_loop 0 100 h bullet_world = Inr (tr, h', w) \<and>
     sorted_wrt (>) (printed_values tr) \<and> length (printed_values tr) = 5"
proof -
  obtain h where r: "bullet_loop 0 100 h bullet_world = Inr (loop_samples 0 0 100, h, world_after 100)"
    using bullet_loop_100_run by blast
  have "sorted_wrt (>) (printed_values (loop_samples 0 0 100))"
    using bullet_loop_heights_decrease [OF r] .
  moreover have "length (printed_values (loop_samples 0 0 100)) = 5"
    by (simp add: loop_samples_100)
  ultimately show ?thesis using r by blast
qed

lemma bullet_loop_ground_fixed_witness:
  "\<exists>h tr h' w. bullet_loop 0 100 h bullet_world = Inr (tr, h', w) \<and>
     map_of (dbodies w) groundRigidBody = Some (make_body 0 (0, -1, 0))"
proof -
  obtain h where r: "bullet_loop 0 100 h bullet_world = Inr (loop_samples 0 0 100, h, world_after 100)"
    using bullet_loop_100_run by blast
  with bullet_loop_ground_fixed [OF r] show ?thesis by blast
qed

lemma bullet_loop_clearance_witness:
  "\<exists>h tr h' w. bullet_loop 0 100 h bullet_world = Inr (tr, h', w) \<and>
     (\<exists>c. box_clearance w = Some c \<and> 0 < c)"
proof -
  obtain h where r: "bullet_loop 0 100 h bullet_world = Inr (loop_samples 0 0 100, h, world_after 100)"
    using bullet_loop_100_run by blast
  from bullet_loop_clearance [OF r] obtain c where "box_clearance (world_after 100) = Some c"
    and "0 < c \<longleftrightarrow> (100::nat) \<le> 187" by blast
  with r show ?thesis by (intro exI [of _ h]) auto
qed

text \<open>With the accumulator empty, \<open>stepSimulation(1/60, 10, 1/60)\<close> is one such step and
  empties the accumulator again.\<close>

lemma step_simulation_one_step:
  "local_time w = 0 \<Longrightarrow>
   step_simulation (1 / 60) 10 (1 / 60) w = loop_step w \<and> local_time (loop_step w) = 0"
  by (cases w) (simp add: step_simulation_def substeps_def single_step_def sync_motion_states_def
      loop_step_def Let_def)

lemma loop_step_keys: "map fst (dbodies (loop_step w)) = map fst (dbodies w)"
  by (simp add: loop_step_def single_step_def sync_motion_states_def Let_def comp_def case_prod_beta)

lemma motion_state_loop_step:
  "fallRigidBody \<in> fst ` set (dbodies w) \<Longrightarrow> motion_state_origin fallRigidBody (loop_step w) \<noteq> None"
  using loop_step_keys [of w]
  by (simp add: motion_state_origin_def map_of_eq_None_iff) (metis list.set_map)

text \<open>
  C14: Every iteration of the loop of lines 143--154 advances the world by exactly one
  internal step: from a world with an empty accumulator that holds the box, n iterations
  give the n-th iterate of one fixed step of 1/60 second followed by the motion-state
  synchronisation. The second argument 10 of \<open>stepSimulation\<close> bounds the number of
  internal steps; it does not set a number of solver iterations.
\<close>

theorem bullet_loop_internal_steps:
  assumes "local_time w = 0" and "fallRigidBody \<in> fst ` set (dbodies w)"
    and "bt_exec (Use dynamicsWorld) h = Inr h" and "bt_exec (UseHeld fallRigidBody 0) h = Inr h"
  shows "\<exists>tr. bullet_loop i n h w = Inr (tr, h, (loop_step ^^ n) w)"
  using assms(1,2)
proof (induction n arbitrary: i w)
  case 0
  then show ?case by simp
next
  case (Suc n)
  have s: "step_simulation (1 / 60) 10 (1 / 60) w = loop_step w" and l: "local_time (loop_step w) = 0"
    using step_simulation_one_step [OF Suc.prems(1)] by simp_all
  have k: "fallRigidBody \<in> fst ` set (dbodies (loop_step w))"
    using Suc.prems(2) loop_step_keys [of w] by (metis list.set_map)
  obtain t where t: "motion_state_origin fallRigidBody (loop_step w) = Some t"
    using motion_state_loop_step [OF Suc.prems(2)] by blast
  obtain tr where r: "bullet_loop (Suc i) n h (loop_step w) = Inr (tr, h, (loop_step ^^ n) (loop_step w))"
    using Suc.IH [OF l k] by blast
  show ?case
    using assms(3,4) s t r by (simp add: funpow_Suc_right del: funpow.simps)
qed

lemma bullet_loop_internal_steps_witness:
  "\<exists>h tr. bullet_loop 0 100 h bullet_world = Inr (tr, h, (loop_step ^^ 100) bullet_world)"
proof -
  obtain h where "bt_exec (Use dynamicsWorld) h = Inr h" and "bt_exec (UseHeld fallRigidBody 0) h = Inr h"
    using bullet_heap_run by blast
  moreover have "local_time bullet_world = 0" and "fallRigidBody \<in> fst ` set (dbodies bullet_world)"
    by (simp_all add: bullet_world_after_0 world_after_def)
  ultimately show ?thesis
    using bullet_loop_internal_steps [of bullet_world h 0 100] by blast
qed

end
