(* ===== verification/PLY_Import.thy ===== *)
theory PLY_Import
  imports Prelude
begin

unbundle bit_operations_syntax

text \<open>
  The part of the Assimp importer the asset check drives, on the inputs it is modelled
  for: reading a well-formed ASCII PLY file from a memory buffer into a scene with one mesh,
  and the two post-processing steps the check requests (\<open>aiProcess_Triangulate\<close>,
  \<open>aiProcess_JoinIdenticalVertices\<close>). A well-formed file is a header (\<open>ply\<close>,
  \<open>format ascii 1.0\<close>, \<open>element\<close> and \<open>property\<close> lines, \<open>end_header\<close>) followed
  by exactly as many element instances as the header declares, as whitespace-separated
  tokens. On such a file the reader builds the mesh Assimp builds. On any other input it
  returns \<open>Inl\<close> with a diagnostic of this model (not Assimp's text): Assimp's reader is
  lenient there (a short or malformed instance is logged, filled with default values and
  kept), and that recovery is not modelled. So this reader is used for well-formed input
  only; the check itself takes the importer as a parameter (\<open>Assimp_Check\<close>). Binary PLY
  and exponents in numbers are not modelled either.
\<close>

section \<open>Lexing\<close>

text \<open>Splitting at the characters that satisfy \<open>P\<close>; the text after the last one is the
  last piece.\<close>

fun split_when :: "(char \<Rightarrow> bool) \<Rightarrow> string \<Rightarrow> string list" where
  "split_when P [] = [[]]"
| "split_when P (x # xs) =
     (if P x then [] # split_when P xs
      else (case split_when P xs of [] \<Rightarrow> [[x]] | w # ws \<Rightarrow> (x # w) # ws))"

definition lines_of :: "string \<Rightarrow> string list" where
  "lines_of s = split_when (\<lambda>c. c = nl) s"

definition is_space :: "char \<Rightarrow> bool" where
  "is_space c \<longleftrightarrow> c = CHR '' '' \<or> c = CHR 0x09 \<or> c = CHR 0x0D \<or> c = nl"

definition words_of :: "string \<Rightarrow> string list" where
  "words_of s = filter (\<lambda>w. w \<noteq> []) (split_when is_space s)"

section \<open>Numbers\<close>

text \<open>An integer token: an optional minus sign and decimal digits.\<close>

definition parse_int :: "string \<Rightarrow> int option" where
  "parse_int s =
     (case s of
        CHR ''-'' # ds \<Rightarrow> map_option (\<lambda>n. - int n) (parse_nat ds)
      | _ \<Rightarrow> map_option int (parse_nat s))"

text \<open>A decimal token: an integer part and an optional fraction after a point.\<close>

definition parse_unsigned_dec :: "string \<Rightarrow> rat option" where
  "parse_unsigned_dec s =
     (case split_when (\<lambda>c. c = CHR ''.'') s of
        [i] \<Rightarrow> map_option of_nat (parse_nat i)
      | [i, f] \<Rightarrow>
          (case (parse_nat i, parse_nat f) of
             (Some a, Some b) \<Rightarrow> Some (of_nat a + of_nat b / 10 ^ length f)
           | _ \<Rightarrow> None)
      | _ \<Rightarrow> None)"

definition parse_dec :: "string \<Rightarrow> rat option" where
  "parse_dec s =
     (case s of
        CHR ''-'' # ds \<Rightarrow> map_option uminus (parse_unsigned_dec ds)
      | _ \<Rightarrow> parse_unsigned_dec s)"

section \<open>Header\<close>

datatype ply_scalar =
    PlyInt8 | PlyUInt8 | PlyInt16 | PlyUInt16 | PlyInt32 | PlyUInt32 | PlyFloat32 | PlyFloat64

definition scalar_of_name :: "string \<Rightarrow> ply_scalar option" where
  "scalar_of_name n = map_of
     [(''char'', PlyInt8), (''int8'', PlyInt8), (''uchar'', PlyUInt8), (''uint8'', PlyUInt8),
      (''short'', PlyInt16), (''int16'', PlyInt16), (''ushort'', PlyUInt16), (''uint16'', PlyUInt16),
      (''int'', PlyInt32), (''int32'', PlyInt32), (''uint'', PlyUInt32), (''uint32'', PlyUInt32),
      (''float'', PlyFloat32), (''float32'', PlyFloat32), (''double'', PlyFloat64),
      (''float64'', PlyFloat64)] n"

datatype ply_property = Scalar ply_scalar string | ListProp ply_scalar ply_scalar string

fun prop_name :: "ply_property \<Rightarrow> string" where
  "prop_name (Scalar _ n) = n"
| "prop_name (ListProp _ _ n) = n"

record ply_element =
  el_name :: string
  el_count :: nat
  el_props :: "ply_property list"

text \<open>The words after \<open>property\<close>: a scalar type and a name, or a list of a count type and an
  item type.\<close>

definition parse_property :: "string list \<Rightarrow> ply_property option" where
  "parse_property ws =
     (case ws of
        [t, n] \<Rightarrow> map_option (\<lambda>t'. Scalar t' n) (scalar_of_name t)
      | [k, c, t, n] \<Rightarrow>
          (if k \<noteq> ''list'' then None
           else case (scalar_of_name c, scalar_of_name t) of
                  (Some c', Some t') \<Rightarrow> Some (ListProp c' t' n)
                | _ \<Rightarrow> None)
      | _ \<Rightarrow> None)"

text \<open>The header lines after the format line; the elements are kept last first while read.\<close>

fun parse_header_lines ::
  "ply_element list \<Rightarrow> string list \<Rightarrow> string + (ply_element list \<times> string list)" where
  "parse_header_lines els [] = Inl ''PLY: unexpected end of file in header''"
| "parse_header_lines els (l # ls) =
     (case words_of l of
        [] \<Rightarrow> parse_header_lines els ls
      | w # ws \<Rightarrow>
          if w = ''end_header'' then Inr (rev els, ls)
          else if w = ''comment'' \<or> w = ''obj_info'' then parse_header_lines els ls
          else if w = ''element'' then
            (case ws of
               [n, c] \<Rightarrow>
                 (case parse_nat c of
                    None \<Rightarrow> Inl ''PLY: invalid element count''
                  | Some k \<Rightarrow> parse_header_lines (\<lparr>el_name = n, el_count = k, el_props = []\<rparr> # els) ls)
             | _ \<Rightarrow> Inl ''PLY: invalid element line'')
          else if w = ''property'' then
            (case els of
               [] \<Rightarrow> Inl ''PLY: property outside an element''
             | e # es \<Rightarrow>
                 (case parse_property ws of
                    None \<Rightarrow> Inl ''PLY: invalid property line''
                  | Some p \<Rightarrow> parse_header_lines (e\<lparr>el_props := el_props e @ [p]\<rparr> # es) ls))
          else Inl ''PLY: unknown header line'')"

definition parse_ply_header :: "string list \<Rightarrow> string + (ply_element list \<times> string list)" where
  "parse_ply_header ls =
     (case ls of
        m # f # rest \<Rightarrow>
          (if words_of m \<noteq> [''ply''] then Inl ''PLY: missing magic number''
           else if words_of f \<noteq> [''format'', ''ascii'', ''1.0''] then Inl ''PLY: unsupported format''
           else parse_header_lines [] rest)
      | _ \<Rightarrow> Inl ''PLY: missing magic number'')"

section \<open>Body\<close>

datatype ply_value = VScalar rat | VList "rat list"

definition int_in_range :: "ply_scalar \<Rightarrow> int \<Rightarrow> bool" where
  "int_in_range t i =
     (case t of
        PlyInt8 \<Rightarrow> -128 \<le> i \<and> i \<le> 127 | PlyUInt8 \<Rightarrow> 0 \<le> i \<and> i \<le> 255
      | PlyInt16 \<Rightarrow> -32768 \<le> i \<and> i \<le> 32767 | PlyUInt16 \<Rightarrow> 0 \<le> i \<and> i \<le> 65535
      | PlyInt32 \<Rightarrow> -2147483648 \<le> i \<and> i \<le> 2147483647
      | PlyUInt32 \<Rightarrow> 0 \<le> i \<and> i \<le> 4294967295
      | _ \<Rightarrow> True)"

definition parse_scalar :: "ply_scalar \<Rightarrow> string \<Rightarrow> rat option" where
  "parse_scalar t tok =
     (if t = PlyFloat32 \<or> t = PlyFloat64 then parse_dec tok
      else case parse_int tok of
             None \<Rightarrow> None
           | Some i \<Rightarrow> if int_in_range t i then Some (of_int i) else None)"

fun parse_items :: "ply_scalar \<Rightarrow> nat \<Rightarrow> string list \<Rightarrow> string + (rat list \<times> string list)" where
  "parse_items t 0 toks = Inr ([], toks)"
| "parse_items t (Suc n) [] = Inl ''PLY: unexpected end of file''"
| "parse_items t (Suc n) (x # xs) =
     (case parse_scalar t x of
        None \<Rightarrow> Inl ''PLY: invalid number''
      | Some v \<Rightarrow> bindE (parse_items t n xs) (\<lambda>(vs, r). Inr (v # vs, r)))"

fun parse_props :: "ply_property list \<Rightarrow> string list \<Rightarrow> string + (ply_value list \<times> string list)" where
  "parse_props [] toks = Inr ([], toks)"
| "parse_props (p # ps) [] = Inl ''PLY: unexpected end of file''"
| "parse_props (Scalar t n # ps) (x # xs) =
     (case parse_scalar t x of
        None \<Rightarrow> Inl ''PLY: invalid number''
      | Some v \<Rightarrow> bindE (parse_props ps xs) (\<lambda>(vs, r). Inr (VScalar v # vs, r)))"
| "parse_props (ListProp c t n # ps) (x # xs) =
     (case parse_scalar c x of
        None \<Rightarrow> Inl ''PLY: invalid number''
      | Some k \<Rightarrow>
          bindE (parse_items t (nat \<lfloor>k\<rfloor>) xs) (\<lambda>(items, r).
          bindE (parse_props ps r) (\<lambda>(vs, r'). Inr (VList items # vs, r'))))"

fun parse_instances ::
  "nat \<Rightarrow> ply_property list \<Rightarrow> string list \<Rightarrow> string + (ply_value list list \<times> string list)" where
  "parse_instances 0 ps toks = Inr ([], toks)"
| "parse_instances (Suc n) ps toks =
     bindE (parse_props ps toks) (\<lambda>(v, r).
     bindE (parse_instances n ps r) (\<lambda>(vs, r'). Inr (v # vs, r')))"

fun parse_elements ::
  "ply_element list \<Rightarrow> string list \<Rightarrow> string + (string \<times> ply_value list list) list" where
  "parse_elements [] toks = Inr []"
| "parse_elements (e # es) toks =
     bindE (parse_instances (el_count e) (el_props e) toks) (\<lambda>(insts, r).
     bindE (parse_elements es r) (\<lambda>rest. Inr ((el_name e, insts) # rest)))"

section \<open>Scene\<close>

type_synonym ai_vector3 = "rat \<times> rat \<times> rat"

record ai_mesh =
  mVertices :: "ai_vector3 list"
  mFaces :: "nat list list"

record ai_scene =
  mFlags :: "32 word"
  mRootNode :: bool
  mMeshes :: "ai_mesh list"

definition find_prop :: "ply_property list \<Rightarrow> string \<Rightarrow> nat option" where
  "find_prop ps n = (let i = index_of n (map prop_name ps) in if i < length ps then Some i else None)"

definition scalar_at :: "ply_value list \<Rightarrow> nat \<Rightarrow> rat option" where
  "scalar_at vs i =
     (if i < length vs then (case vs ! i of VScalar v \<Rightarrow> Some v | VList _ \<Rightarrow> None) else None)"

definition list_at :: "ply_value list \<Rightarrow> nat \<Rightarrow> rat list option" where
  "list_at vs i =
     (if i < length vs then (case vs ! i of VList xs \<Rightarrow> Some xs | VScalar _ \<Rightarrow> None) else None)"

definition vertex_positions :: "ply_element \<Rightarrow> ply_value list list \<Rightarrow> string + ai_vector3 list" where
  "vertex_positions e insts =
     (case (find_prop (el_props e) ''x'', find_prop (el_props e) ''y'', find_prop (el_props e) ''z'') of
        (Some ix, Some iy, Some iz) \<Rightarrow>
          (case those (map (\<lambda>vs. case (scalar_at vs ix, scalar_at vs iy, scalar_at vs iz) of
                                     (Some x, Some y, Some z) \<Rightarrow> Some (x, y, z)
                                   | _ \<Rightarrow> None) insts) of
             None \<Rightarrow> Inl ''PLY: invalid vertex''
           | Some ps \<Rightarrow> Inr ps)
      | _ \<Rightarrow> Inl ''PLY: vertex element without x, y and z'')"

text \<open>A face index must be a whole number naming one of the \<open>nv\<close> vertices.\<close>

definition face_index :: "nat \<Rightarrow> rat \<Rightarrow> nat option" where
  "face_index nv r =
     (if r = of_int \<lfloor>r\<rfloor> \<and> 0 \<le> r \<and> r < of_nat nv then Some (nat \<lfloor>r\<rfloor>) else None)"

definition face_lists :: "nat \<Rightarrow> ply_element \<Rightarrow> ply_value list list \<Rightarrow> string + nat list list" where
  "face_lists nv e insts =
     (case (case find_prop (el_props e) ''vertex_indices'' of
              None \<Rightarrow> find_prop (el_props e) ''vertex_index''
            | Some i \<Rightarrow> Some i) of
        None \<Rightarrow> Inl ''PLY: face element without vertex indices''
      | Some i \<Rightarrow>
          (case those (map (\<lambda>vs. Option.bind (list_at vs i) (\<lambda>rs. those (map (face_index nv) rs)))
                          insts) of
             None \<Rightarrow> Inl ''PLY: invalid vertex index''
           | Some fs \<Rightarrow> Inr fs))"

definition element_named :: "ply_element list \<Rightarrow> string \<Rightarrow> ply_element option" where
  "element_named els n = find (\<lambda>e. el_name e = n) els"

definition ply_to_mesh :: "ply_element list \<Rightarrow> (string \<times> ply_value list list) list \<Rightarrow> string + ai_mesh" where
  "ply_to_mesh els data =
     (case (element_named els ''vertex'', map_of data ''vertex'') of
        (Some ve, Some vinsts) \<Rightarrow>
          bindE (vertex_positions ve vinsts) (\<lambda>vs.
          case (element_named els ''face'', map_of data ''face'') of
            (Some fe, Some finsts) \<Rightarrow>
              bindE (face_lists (length vs) fe finsts) (\<lambda>fs. Inr \<lparr>mVertices = vs, mFaces = fs\<rparr>)
          | _ \<Rightarrow> Inr \<lparr>mVertices = vs, mFaces = []\<rparr>)
      | _ \<Rightarrow> Inl ''PLY: no vertex element'')"

section \<open>Post-processing\<close>

definition aiProcess_JoinIdenticalVertices :: "32 word" where "aiProcess_JoinIdenticalVertices = 0x2"
definition aiProcess_Triangulate :: "32 word" where "aiProcess_Triangulate = 0x8"
definition AI_SCENE_FLAGS_INCOMPLETE :: "32 word" where "AI_SCENE_FLAGS_INCOMPLETE = 0x1"

text \<open>\<open>aiProcess_Triangulate\<close>: a polygon of more than three corners becomes the fan of
  triangles from its first corner; triangles, lines and points are kept.\<close>

fun fan_triangles :: "nat \<Rightarrow> nat list \<Rightarrow> nat list list" where
  "fan_triangles a (b # c # rest) = [a, b, c] # fan_triangles a (c # rest)"
| "fan_triangles a _ = []"

definition triangulate_face :: "nat list \<Rightarrow> nat list list" where
  "triangulate_face f = (case f of a # rest \<Rightarrow> if length f \<le> 3 then [f] else fan_triangles a rest | [] \<Rightarrow> [f])"

definition triangulate :: "ai_mesh \<Rightarrow> ai_mesh" where
  "triangulate m = m\<lparr>mFaces := concat (map triangulate_face (mFaces m))\<rparr>"

text \<open>\<open>aiProcess_JoinIdenticalVertices\<close>: each vertex equal to an earlier one is replaced by
  it, and the faces are renumbered.\<close>

definition join_identical_vertices :: "ai_mesh \<Rightarrow> ai_mesh" where
  "join_identical_vertices m =
     (let vs = mVertices m; us = dedup vs
      in m\<lparr>mVertices := us, mFaces := map (map (\<lambda>i. index_of (vs ! i) us)) (mFaces m)\<rparr>)"

definition post_process :: "32 word \<Rightarrow> ai_mesh \<Rightarrow> ai_mesh" where
  "post_process flags m =
     (let m1 = (if flags AND aiProcess_Triangulate \<noteq> 0 then triangulate m else m)
      in if flags AND aiProcess_JoinIdenticalVertices \<noteq> 0 then join_identical_vertices m1 else m1)"

text \<open>\<open>Importer::ReadFileFromMemory(buffer, length, flags)\<close> on a well-formed file: the
  first \<open>length\<close> bytes of the buffer are read as a PLY file.\<close>

definition read_file_from_memory :: "string \<Rightarrow> nat \<Rightarrow> 32 word \<Rightarrow> string + ai_scene" where
  "read_file_from_memory buf len flags =
     bindE (parse_ply_header (lines_of (take len buf))) (\<lambda>(els, body).
     bindE (parse_elements els (concat (map words_of body))) (\<lambda>data.
     bindE (ply_to_mesh els data) (\<lambda>m.
       Inr \<lparr>mFlags = 0, mRootNode = True, mMeshes = [post_process flags m]\<rparr>)))"

end
