(* ===== verification/Assimp_Check.thy ===== *)
theory Assimp_Check
  imports PLY_Import
begin

unbundle bit_operations_syntax

text \<open>
  The asset-import check \<open>testAssimp\<close> (\<open>src/src/main.cxx\<close>, lines 174--208): the
  in-memory PLY text of lines 179--190, the length 300 and the flags
  \<open>aiProcess_Triangulate | aiProcess_JoinIdenticalVertices\<close> passed to
  \<open>ReadFileFromMemory\<close> (lines 178--192), and the reporting of lines 194--207 over
  whatever the importer returns (\<open>assimp_report\<close>). The importer is a parameter of the
  check: the bytes it is given are not a well-formed PLY file (\<open>assimp_buffer_truncated\<close>),
  and what Assimp makes of them depends on its recovery from malformed instances, which is
  not modelled. \<open>read_file_from_memory\<close> of \<open>PLY_Import\<close> is the importer on well-formed
  files, used for the whole literal (\<open>assimp_full_buffer\<close>).
\<close>

type_synonym importer = "string \<Rightarrow> nat \<Rightarrow> 32 word \<Rightarrow> string + ai_scene"

section \<open>The check\<close>

definition ply_line :: "string \<Rightarrow> string" where
  "ply_line l = l @ [nl]"

text \<open>The C string literal of lines 179--190, one list element per \<open>\n\<close>-terminated line.\<close>

definition assimp_buffer :: string where
  "assimp_buffer = concat (map ply_line
     [''ply'', ''format ascii 1.0'', ''element vertex 8'', ''property float x'',
      ''property float y'', ''property float z'', ''element face 12'',
      ''property list uchar int vertex_indices'', ''end_header'',
      ''-1 -1 -1'', ''1 -1 -1'', ''1 1 -1'', ''-1 1 -1'', ''-1 -1 1'', ''1 -1 1'', ''1 1 1'', ''-1 1 1'',
      ''3 0 1 2'', ''3 0 2 3'', ''3 1 5 6'', ''3 1 6 2'', ''3 5 4 7'', ''3 5 7 6'', ''3 4 0 3'',
      ''3 4 3 7'', ''3 3 2 6'', ''3 3 6 7'', ''3 0 4 5'', ''3 0 5 1''])"

definition assimp_length :: nat where
  "assimp_length = 300"

definition assimp_flags :: "32 word" where
  "assimp_flags = aiProcess_Triangulate OR aiProcess_JoinIdenticalVertices"

text \<open>
  Lines 194--207. A null scene, an incomplete one or one without a root node prints the
  importer's error string (empty when the importer returned a scene); otherwise the mesh
  count, the first mesh's vertex and face counts when there is a mesh, and the success line.
\<close>

definition assimp_report :: "string + ai_scene \<Rightarrow> trace" where
  "assimp_report r =
     (case r of
        Inl err \<Rightarrow> [Err (''Assimp error: '' @ err)]
      | Inr sc \<Rightarrow>
          (if mFlags sc AND AI_SCENE_FLAGS_INCOMPLETE \<noteq> 0 \<or> \<not> mRootNode sc
           then [Err ''Assimp error: '']
           else [Out (''Assimp loaded test scene with '' @ show_nat (length (mMeshes sc)) @ '' meshes'')]
                @ (case mMeshes sc of
                     [] \<Rightarrow> []
                   | m # _ \<Rightarrow> [Out (''First mesh has '' @ show_nat (length (mVertices m)) @
                                     '' vertices and '' @ show_nat (length (mFaces m)) @ '' faces'')])
                @ [Out ''Assimp is working.'']))"

text \<open>The whole check: \<open>imp\<close> is \<open>Importer::ReadFileFromMemory\<close>, returning a scene or,
  for a null scene, \<open>GetErrorString()\<close>.\<close>

definition testAssimp :: "importer \<Rightarrow> trace" where
  "testAssimp imp = assimp_report (imp assimp_buffer assimp_length assimp_flags)"

section \<open>Properties\<close>

text \<open>
  C4: The text literal of lines 179--190 is 311 bytes long but only its first 300 are
  passed to the importer: the bytes it receives end in the middle of the eleventh face
  record (\<open>3 0 4\<close>), and the twelfth face record, which the header declares, is missing.
\<close>

theorem assimp_buffer_truncated:
  "length assimp_buffer = 311 \<and> assimp_length < length assimp_buffer \<and>
   drop 17 (lines_of (take assimp_length assimp_buffer)) =
     [''3 0 1 2'', ''3 0 2 3'', ''3 1 5 6'', ''3 1 6 2'', ''3 5 4 7'', ''3 5 7 6'', ''3 4 0 3'',
      ''3 4 3 7'', ''3 3 2 6'', ''3 3 6 7'', ''3 0 4'']"
  by code_simp

text \<open>
  C17: Passed the whole literal, the same import yields one mesh of 8 vertices and 12 faces
  and the check prints exactly its three success lines.
\<close>

theorem assimp_full_buffer:
  "assimp_report (read_file_from_memory assimp_buffer (length assimp_buffer) assimp_flags) =
     [Out ''Assimp loaded test scene with 1 meshes'', Out ''First mesh has 8 vertices and 12 faces'',
      Out ''Assimp is working.'']"
  by code_simp

text \<open>
  C18: Whatever the importer returns, the reporting code of lines 194--207 prints its success
  line exactly when it got a scene that is complete and has a root node, and otherwise prints
  exactly one line, on standard error.
\<close>

theorem assimp_report_paths:
  "(Out ''Assimp is working.'' \<in> set (assimp_report r) \<longleftrightarrow>
      (\<exists>sc. r = Inr sc \<and> mFlags sc AND AI_SCENE_FLAGS_INCOMPLETE = 0 \<and> mRootNode sc)) \<and>
   (Out ''Assimp is working.'' \<notin> set (assimp_report r) \<longrightarrow>
      stdout_of (assimp_report r) = [] \<and> length (stderr_of (assimp_report r)) = 1)"
  by (auto simp: assimp_report_def split: sum.splits list.splits)

lemma assimp_report_paths_witness:
  "Out ''Assimp is working.'' \<notin> set (assimp_report (Inl ''some importer error'')) \<and>
   stdout_of (assimp_report (Inl ''some importer error'')) = [] \<and>
   length (stderr_of (assimp_report (Inl ''some importer error''))) = 1"
proof -
  have "Out ''Assimp is working.'' \<notin> set (assimp_report (Inl ''some importer error''))"
    by (simp add: assimp_report_def)
  with assimp_report_paths [of "Inl ''some importer error''"] show ?thesis by blast
qed

text \<open>
  C19: On a complete scene with a root node, the reporting code prints the first mesh's
  vertex and face counts in decimal so that they read back as exactly those counts.
\<close>

theorem assimp_report_counts_roundtrip:
  assumes "mFlags sc AND AI_SCENE_FLAGS_INCOMPLETE = 0" and "mRootNode sc" and "mMeshes sc = m # ms"
  shows "\<exists>a b. Out (''First mesh has '' @ a @ '' vertices and '' @ b @ '' faces'') \<in> set (assimp_report (Inr sc)) \<and>
           parse_nat a = Some (length (mVertices m)) \<and> parse_nat b = Some (length (mFaces m))"
  using assms
  by (intro exI [of _ "show_nat (length (mVertices m))"] exI [of _ "show_nat (length (mFaces m))"])
     (simp add: assimp_report_def)

lemma assimp_report_counts_roundtrip_witness:
  "\<exists>a b. Out (''First mesh has '' @ a @ '' vertices and '' @ b @ '' faces'') \<in>
       set (assimp_report (Inr \<lparr>mFlags = 0, mRootNode = True,
                                 mMeshes = [\<lparr>mVertices = [(0, 0, 0), (1, 0, 0), (1, 1, 0)], mFaces = [[0, 1, 2]]\<rparr>]\<rparr>)) \<and>
     parse_nat a = Some 3 \<and> parse_nat b = Some 1"
  using assimp_report_counts_roundtrip
    [of "\<lparr>mFlags = 0, mRootNode = True,
          mMeshes = [\<lparr>mVertices = [(0, 0, 0), (1, 0, 0), (1, 1, 0)], mFaces = [[0, 1, 2]]\<rparr>]\<rparr>"
        "\<lparr>mVertices = [(0, 0, 0), (1, 0, 0), (1, 1, 0)], mFaces = [[0, 1, 2]]\<rparr>" "[]"]
  by (simp add: numeral_3_eq_3)

end
