(* ===== verification/Main_Run.thy ===== *)
theory Main_Run
  imports Prelude
begin

text \<open>
  The entry point \<open>main\<close> (\<open>src/src/main.cxx\<close>, lines 210--238), stated over what each
  check does: a check returns normally with its output, throws an exception after some
  output, ends the whole process by calling \<open>exit\<close> (as \<open>Fl::fatal\<close> does), or reaches
  undefined behaviour. \<open>main\<close> prints its banner, then for each of the
  five checks in order a header and the check's output; a \<open>std::exception\<close> escaping a
  check is caught by the guard of lines 233--237, which prints its message and returns 1;
  an exception of another type is not caught, so \<open>std::terminate\<close> ends the process
  abnormally; otherwise the final line is printed and \<open>main\<close> returns 0 by falling off its
  end.
\<close>

datatype exn = StdException string | ForeignException

datatype check_outcome = Returned trace | Threw trace exn | Exit trace int | Undefined trace

datatype run_result = Exited int trace | Terminated trace | UndefinedBehaviour trace

fun is_returned :: "check_outcome \<Rightarrow> bool" where
  "is_returned (Returned _) = True"
| "is_returned _ = False"

text \<open>The header lines of lines 216, 219, 222, 225 and 228, in order.\<close>

definition check_headers :: "string list" where
  "check_headers = [nl # ''Testing Boost...'', nl # ''Testing FLTK...'',
     nl # ''Testing OpenGL/GLFW/Glad...'', nl # ''Testing Bullet Physics...'', nl # ''Testing Assimp...'']"

text \<open>The body of the \<open>try\<close> block and its handler, from the output so far.\<close>

fun run_sequence :: "(string \<times> check_outcome) list \<Rightarrow> trace \<Rightarrow> run_result" where
  "run_sequence [] acc = Exited 0 (acc @ [Out (nl # ''All tests completed successfully!'')])"
| "run_sequence ((hdr, c) # cs) acc =
     (case c of
        Returned t \<Rightarrow> run_sequence cs (acc @ [Out hdr] @ t)
      | Threw t (StdException w) \<Rightarrow> Exited 1 (acc @ [Out hdr] @ t @ [Err (''Test failed: '' @ w)])
      | Threw t ForeignException \<Rightarrow> Terminated (acc @ [Out hdr] @ t)
      | Exit t n \<Rightarrow> Exited n (acc @ [Out hdr] @ t)
      | Undefined t \<Rightarrow> UndefinedBehaviour (acc @ [Out hdr] @ t))"

definition main_model ::
  "check_outcome \<Rightarrow> check_outcome \<Rightarrow> check_outcome \<Rightarrow> check_outcome \<Rightarrow> check_outcome \<Rightarrow> run_result" where
  "main_model boost fltk opengl bullet assimp =
     run_sequence (zip check_headers [boost, fltk, opengl, bullet, assimp])
       [Out ''Starting library tests...'']"

text \<open>The process's exit status, when it exits normally.\<close>

fun exit_status :: "run_result \<Rightarrow> int option" where
  "exit_status (Exited n _) = Some n"
| "exit_status _ = None"

text \<open>
  What the spec's guard promises, from the checks' outcomes alone: status 0 when every check
  returns, 1 when the first check that does not return throws a \<open>std::exception\<close>, the
  status it passes to \<open>exit\<close> when it calls \<open>exit\<close>, and no normal exit otherwise.
\<close>

definition expected_status :: "check_outcome list \<Rightarrow> int option" where
  "expected_status cs =
     (case find (\<lambda>c. \<not> is_returned c) cs of
        None \<Rightarrow> Some 0
      | Some (Threw _ (StdException _)) \<Rightarrow> Some 1
      | Some (Exit _ n) \<Rightarrow> Some n
      | Some _ \<Rightarrow> None)"

section \<open>Properties\<close>

lemma run_sequence_status:
  "exit_status (run_sequence cs acc) = expected_status (map snd cs)"
proof (induction cs arbitrary: acc)
  case Nil
  then show ?case by (simp add: expected_status_def)
next
  case (Cons hc cs)
  obtain h c where hc: "hc = (h, c)" by fastforce
  show ?case
  proof (cases c)
    case (Returned t)
    with Cons.IH hc show ?thesis by (simp add: expected_status_def)
  next
    case (Threw t e)
    with hc show ?thesis by (cases e) (simp_all add: expected_status_def)
  next
    case (Exit t n)
    with hc show ?thesis by (simp add: expected_status_def)
  next
    case (Undefined t)
    with hc show ?thesis by (simp add: expected_status_def)
  qed
qed

text \<open>
  C7: Whatever the five checks do, \<open>main\<close> exits with status 0 exactly when all of them
  return, with status 1 exactly when the first one that does not return throws a
  \<open>std::exception\<close>, with the status a check passes to \<open>exit\<close> when it ends the process,
  and does not exit normally when it throws anything else (the process is terminated) or
  has undefined behaviour.
\<close>

theorem main_exit_status:
  "exit_status (main_model boost fltk opengl bullet assimp) =
     expected_status [boost, fltk, opengl, bullet, assimp]"
  using run_sequence_status
    [of "zip check_headers [boost, fltk, opengl, bullet, assimp]" "[Out ''Starting library tests...'']"]
  by (simp add: main_model_def check_headers_def)

text \<open>
  C22: When every check returns, \<open>main\<close> prints its banner, then each check's header
  followed by that check's output, in the order Boost, FLTK, OpenGL, Bullet, Assimp, and then
  its final line, and exits with status 0.
\<close>

theorem main_output_order:
  "main_model (Returned t1) (Returned t2) (Returned t3) (Returned t4) (Returned t5) =
     Exited 0 ([Out ''Starting library tests...'', Out (check_headers ! 0)] @ t1 @
               [Out (check_headers ! 1)] @ t2 @ [Out (check_headers ! 2)] @ t3 @
               [Out (check_headers ! 3)] @ t4 @ [Out (check_headers ! 4)] @ t5 @
               [Out (nl # ''All tests completed successfully!'')])"
  by (simp add: main_model_def check_headers_def)

text \<open>
  C10: A \<open>std::exception\<close> thrown by a check, after any number of checks that returned,
  aborts the sequence: \<open>main\<close> prints the output so far and \<open>Test failed: \<close> with the
  exception's message on standard error, runs none of the later checks, prints no final
  line, and exits with status 1.
\<close>

theorem main_std_exception_aborts:
  "run_sequence (map (\<lambda>(h, t). (h, Returned t)) pre @ (hdr, Threw t (StdException msg)) # post) acc =
     Exited 1 (acc @ concat (map (\<lambda>(h, t). Out h # t) pre) @ Out hdr # t @ [Err (''Test failed: '' @ msg)])"
  by (induction pre arbitrary: acc) auto

end
