(* ===== verification/Spec2Isabelle.thy ===== *)
theory Spec2Isabelle
  imports Boost_Check FLTK_Check GLFW_Check Bullet_Check Assimp_Check Main_Run
begin

text \<open>
  \<^bold>\<open>A verification library for the library smoke test \<open>src/src/main.cxx\<close>.\<close>

  \<^bold>\<open>The program.\<close> One C++ file. \<open>main\<close> (lines 210--238) prints a banner and runs five
  independent checks in a fixed order, each under a header line, inside one
  \<open>try\<close>/\<open>catch (const std::exception&)\<close>: \<open>testBoost\<close> (lines 47--66, the working
  directory through Boost.Filesystem), \<open>testFLTK\<close> (lines 30--44, a window with a label
  and ten \<open>Fl::wait\<close> calls), \<open>testOpenGL\<close> (lines 69--108, GLFW, glad and one cleared
  frame), \<open>testBullet\<close> (lines 111--171, a Bullet world with a static ground plane and a
  falling box, stepped 100 times, every object deleted by hand) and \<open>testAssimp\<close> (lines
  174--208, a cube in PLY text imported from memory). The checks share no state; they
  interact only through \<open>main\<close>'s sequencing and the process's standard output and error.

  \<^bold>\<open>How it is modelled.\<close> Output is a trace of events (\<open>Prelude\<close>: \<open>Out\<close>, \<open>Err\<close>, and
  \<open>OutValue\<close> for a printed float); undefined behaviour and library misuse are values of a
  sum type. Each library is modelled as far as the check uses it, as an explicit state
  with one operation per call the source makes; the platform's answers (does
  \<open>glfwInit\<close> succeed, can a display be opened, what is the working directory, what does
  the importer return) are parameters.
  \<^item> \<open>Prelude\<close>: traces, the error monad \<open>bindE\<close>, decimal numerals with their
    print/parse round trip, duplicate removal with its index map.
  \<^item> \<open>Boost_Check\<close>: \<open>current_path\<close> over an \<open>os_state\<close>; \<open>testBoost\<close> with both of its
    tests of the error code.
  \<^item> \<open>FLTK_Check\<close>: a widget store with FLTK's current-group rule and its destructors;
    \<open>fltk_setup\<close> (lines 32--38), \<open>fltk_wait_loop\<close> (40--43), \<open>fltk_scope_exit\<close> (the
    destruction of the automatic objects at line 44), \<open>testFLTK\<close>; \<open>window.show()\<close>
    opens the display or ends the process through \<open>Fl::fatal\<close> (\<open>fl_env\<close>); alignment
    flags are 32-bit words.
  \<^item> \<open>GLFW_Check\<close>: the GLFW/glad/GL state machine \<open>glfw_step\<close> (initialisation, hints,
    windows with their contexts, current context, loaded functions, presented frames,
    counts of inits and terminations), its reachable states (\<open>glfw_reachable\<close>) and
    invariant \<open>glfw_inv\<close>, and \<open>testOpenGL\<close> call by call with every early return.
  \<^item> \<open>Bullet_Objects\<close>, \<open>Bullet_Dynamics\<close>, \<open>Bullet_Check\<close>: the eleven heap objects of
    \<open>testBullet\<close> in a store that faults on use after free, double free and destructors
    reaching freed objects; the world's numbers (gravity, static and dynamic bodies,
    \<open>stepSimulation\<close>'s fixed-step accumulator, semi-implicit Euler, motion-state
    synchronisation with latency interpolation) in exact rationals; \<open>bullet_setup\<close>,
    \<open>bullet_world\<close>, \<open>bullet_loop\<close>, \<open>bullet_teardown\<close>, \<open>testBullet\<close>.
  \<^item> \<open>Assimp_Check\<close>: the literal, length, flags and reporting code of \<open>testAssimp\<close>,
    with the importer (\<open>ReadFileFromMemory\<close>) as a parameter. \<open>PLY_Import\<close> models the
    importer on well-formed ASCII PLY (header, element instances, mesh construction,
    \<open>aiProcess_Triangulate\<close>, \<open>aiProcess_JoinIdenticalVertices\<close>); the 300 bytes the
    check passes are not well formed, and Assimp's recovery from that is not modelled.
  \<^item> \<open>Main_Run\<close>: \<open>main\<close> over any outcome of each check (returns, throws a
    \<open>std::exception\<close>, throws something else, calls \<open>exit\<close>, undefined behaviour).
  \<^item> this theory: \<open>program\<close>, the five check models composed by \<open>main\<close> from their
    initial library states, over an \<open>environment\<close> of platform answers.

  \<^bold>\<open>What is proved.\<close>
  \<^item> Physics (\<open>Bullet_Check\<close>): \<open>testBullet\<close> never faults and frees each of its eleven
    objects exactly once; it prints the heights 50, 593/12, 859/18, 539/12, 41 and its
    success line; for any number of loop iterations the printed heights strictly
    decrease, the ground body never moves, and the box is above the ground plane exactly
    for the first 187 steps, so the 100 steps of the source never produce a contact; n
    iterations of the loop are exactly n internal steps (the argument 10 of
    \<open>stepSimulation\<close> is the bound on substeps); the deallocation order is not the
    reverse of the construction order.
  \<^item> Graphics (\<open>GLFW_Check\<close>): \<open>testOpenGL\<close> refines its contract \<open>gl_contract\<close> (one
    diagnostic per failing step, the version and success lines otherwise), releases GLFW
    exactly once on every path, and presents one frame on an OpenGL 3.3 core context.
  \<^item> Import (\<open>Assimp_Check\<close>, \<open>PLY_Import\<close>): the literal is 311 bytes but 300 are passed,
    so the importer sees 10 of the 12 face records and a partial one; the whole literal
    is a well-formed cube and gives the 1 mesh, 8 vertices and 12 faces the spec expects;
    the reporting code's paths for every importer result, and the counts it prints read
    back exactly.
  \<^item> Filesystem and GUI (\<open>Boost_Check\<close>, \<open>FLTK_Check\<close>): the printed directory is the
    operating system's; errors are reported, not raised; the second test of the error
    code is redundant; with a display, the widget layout and alignment bits, the wait
    loop's bound and a safe scope exit.
  \<^item> Entry point (\<open>Main_Run\<close>, this theory): the exit status as a function of the
    checks' outcomes; the output order; a \<open>std::exception\<close> in any check aborts the
    later ones with status 1; for the composed program, the exit status on every
    platform (1 without a display, none when the driver returns a null version string, 0
    otherwise), the full output of a run with a display and working graphics for any
    importer result, and the output of a run without a display, which stops inside the
    GUI check.

  \<^bold>\<open>Bounds and fuel.\<close> No fuel is used: every loop of the source is a counted loop and
  is a structural recursion on the iterations left (\<open>bullet_loop\<close>, \<open>fltk_wait_loop\<close>);
  the parsers recurse on their input. The 100 iterations of the physics loop are
  evaluated through a closed form (\<open>world_after\<close>) in blocks of 20 iterations; the
  clearance theorem covers every iteration count, and 187 is its exact threshold.

  \<^bold>\<open>Not modelled.\<close> Floating-point rounding (Bullet's numbers and the colour constants
  are exact rationals); collision detection and contact resolution, orientation,
  sleeping; the rendering itself and window-system events; binary PLY and Assimp's
  recovery from malformed files (so what the check prints for the truncated buffer is
  left to the importer parameter); allocation failure; stream formatting of floats (a printed height is an
  \<open>OutValue\<close> with its exact value); the libraries' internals beyond what the calls
  above need.
\<close>

section \<open>The whole program\<close>

text \<open>The platform the program runs on: the operating system, the display, the graphics
  stack, and what Assimp's \<open>ReadFileFromMemory\<close> returns.\<close>

record environment =
  env_os :: os_state
  env_fl :: fl_env
  env_gl :: gl_env
  env_import :: importer

text \<open>
  \<open>main\<close> of lines 210--238 over the five checks as modelled, each started from its
  library's initial state. A check that reaches undefined behaviour is \<open>Undefined\<close>;
  \<open>Fl::fatal\<close> is an \<open>exit(1)\<close> after its message. The check models have no path that
  throws: \<open>testBoost\<close> uses the overload of \<open>current_path\<close> that reports through an
  \<open>error_code\<close>, \<open>ReadFileFromMemory\<close> reports failure as a null scene, GLFW, glad and GL
  are C interfaces, and allocation failure (\<open>std::bad_alloc\<close> from \<open>new\<close>) is not
  modelled.
\<close>

definition fl_outcome :: "fl_env \<Rightarrow> check_outcome" where
  "fl_outcome e =
     (case testFLTK e fl_start of
        Inl (FatalExit m) \<Rightarrow> Exit [Err m] 1
      | Inl _ \<Rightarrow> Undefined []
      | Inr _ \<Rightarrow> Returned [])"

definition gl_outcome :: "gl_env \<Rightarrow> check_outcome" where
  "gl_outcome env =
     (case testOpenGL env glfw_start of Inl _ \<Rightarrow> Undefined [] | Inr (t, _) \<Rightarrow> Returned t)"

definition bullet_outcome :: check_outcome where
  "bullet_outcome = (case testBullet of Inl _ \<Rightarrow> Undefined [] | Inr (t, _, _) \<Rightarrow> Returned t)"

definition program :: "environment \<Rightarrow> run_result" where
  "program env =
     main_model
       (Returned (testBoost (env_os env)))
       (fl_outcome (env_fl env))
       (gl_outcome (env_gl env))
       bullet_outcome
       (Returned (testAssimp (env_import env)))"

definition nominal_environment :: "importer \<Rightarrow> environment" where
  "nominal_environment imp =
     \<lparr>env_os = sample_os, env_fl = display_env, env_gl = nominal_gl_env, env_import = imp\<rparr>"

definition headless_environment :: "importer \<Rightarrow> environment" where
  "headless_environment imp =
     \<lparr>env_os = sample_os, env_fl = \<lparr>fl_display_ok = False, fl_display_name = ''''\<rparr>,
      env_gl = nominal_gl_env, env_import = imp\<rparr>"

section \<open>Properties spanning the checks\<close>

lemma gl_outcome_contract:
  "gl_outcome env = (case gl_contract env of Inl _ \<Rightarrow> Undefined [] | Inr t \<Rightarrow> Returned t)"
  by (simp add: gl_outcome_def testOpenGL_def gl_contract_def glfw_simps glfw_start_def
           split: option.splits)

lemma fl_outcome_display:
  "fl_outcome e = (if fl_display_ok e then Returned []
                   else Exit [Err (''Can't open display: '' @ fl_display_name e)] 1)"
proof (cases "fl_display_ok e")
  case True
  then obtain s where "testFLTK e fl_start = Inr s" using testFLTK_run by blast
  with True show ?thesis by (simp add: fl_outcome_def)
next
  case False
  then show ?thesis by (simp add: fl_outcome_def testFLTK_no_display)
qed

lemma bullet_outcome_returns:
  "bullet_outcome = Returned (loop_samples 0 0 100 @ [Out ''Bullet Physics is working.''])"
proof -
  obtain h w where b: "testBullet = Inr (loop_samples 0 0 100 @ [Out ''Bullet Physics is working.''], h, w)"
    using testBullet_result by blast
  show ?thesis by (simp only: bullet_outcome_def b sum.case prod.case)
qed

lemma program_status:
  "exit_status (program env) =
     expected_status [Returned (testBoost (env_os env)), fl_outcome (env_fl env),
                      gl_outcome (env_gl env), bullet_outcome, Returned (testAssimp (env_import env))]"
  using run_sequence_status
    [of "zip check_headers [Returned (testBoost (env_os env)), fl_outcome (env_fl env),
           gl_outcome (env_gl env), bullet_outcome, Returned (testAssimp (env_import env))]"
        "[Out ''Starting library tests...'']"]
  by (simp add: program_def main_model_def check_headers_def)

text \<open>
  C3: The exit status of the whole program, for every working directory, every answer of
  the graphics stack and every result of the importer: 1 when no display can be opened
  (\<open>Fl::fatal\<close> in \<open>window.show()\<close>), no normal exit when the platform gives a window and GL
  functions but the driver's version string is null (undefined behaviour), and 0 otherwise.
  The \<open>std::exception\<close> guard of \<open>main\<close> never decides it.
\<close>

theorem program_exit_status:
  "exit_status (program env) =
     (if \<not> fl_display_ok (env_fl env) then Some 1
      else if glfw_platform_ok (env_gl env) \<and> glfw_window_ok (env_gl env) \<and>
         glad_loader_ok (env_gl env) \<and> gl_version (env_gl env) = None
      then None else Some 0)"
  by (simp add: program_status expected_status_def fl_outcome_display gl_outcome_contract
      bullet_outcome_returns gl_contract_def split: option.splits)

lemma program_exit_status_witness:
  "exit_status (program (nominal_environment read_file_from_memory)) = Some 0 \<and>
   exit_status (program (headless_environment read_file_from_memory)) = Some 1"
  using program_exit_status [of "nominal_environment read_file_from_memory"]
    program_exit_status [of "headless_environment read_file_from_memory"]
  by (simp add: nominal_environment_def headless_environment_def display_env_def nominal_gl_env_def)

text \<open>
  C8: On a platform with a display where every graphics call succeeds, whatever the
  importer returns, the program prints, in order: its banner; the working directory and
  the Boost success line; nothing for FLTK (the check prints no line of its own); the
  OpenGL version and success line; the five box heights and the Bullet success line; what
  the reporting code of the Assimp check prints for the importer's result; and the final
  line. It exits with status 0, whether or not the import succeeds.
\<close>

theorem program_nominal_run:
  "program (nominal_environment imp) =
     Exited 0
       ([Out ''Starting library tests...'',
         Out (nl # ''Testing Boost...''),
         Out ''Boost Filesystem is working. Current directory: /home/user/cross'',
         Out ''Boost System is working.'',
         Out (nl # ''Testing FLTK...''),
         Out (nl # ''Testing OpenGL/GLFW/Glad...''),
         Out ''OpenGL version: 3.3.0'', Out ''GLFW and Glad are working.'',
         Out (nl # ''Testing Bullet Physics...''),
         OutValue ''Bullet Physics: box height: '' 50,
         OutValue ''Bullet Physics: box height: '' (593 / 12),
         OutValue ''Bullet Physics: box height: '' (859 / 18),
         OutValue ''Bullet Physics: box height: '' (539 / 12),
         OutValue ''Bullet Physics: box height: '' 41,
         Out ''Bullet Physics is working.'',
         Out (nl # ''Testing Assimp...'')] @
        assimp_report (imp assimp_buffer assimp_length assimp_flags) @
        [Out (nl # ''All tests completed successfully!'')])"
proof -
  have g: "gl_outcome nominal_gl_env =
      Returned [Out ''OpenGL version: 3.3.0'', Out ''GLFW and Glad are working.'']"
    by (simp add: gl_outcome_contract gl_contract_def nominal_gl_env_def)
  have b: "testBoost sample_os = [Out ''Boost Filesystem is working. Current directory: /home/user/cross'',
      Out ''Boost System is working.'']"
    by (simp add: testBoost_def current_path_def ec_set_def sample_os_def)
  have f: "fl_outcome display_env = Returned []"
    by (simp add: fl_outcome_display display_env_def)
  show ?thesis
    by (simp add: program_def nominal_environment_def g b f bullet_outcome_returns loop_samples_100
        box_height_closed main_model_def check_headers_def testAssimp_def)
qed

text \<open>
  C9: When no display can be opened, the program prints its banner, the Boost check's
  lines and the FLTK header, then FLTK's fatal message on standard error, and exits with
  status 1 from inside the GUI check: the graphics, physics and asset checks never run,
  and no final line is printed.
\<close>

theorem program_headless_run:
  "\<not> fl_display_ok (env_fl env) \<Longrightarrow>
   program env =
     Exited 1 ([Out ''Starting library tests...'', Out (nl # ''Testing Boost...'')] @
               testBoost (env_os env) @
               [Out (nl # ''Testing FLTK...''),
                Err (''Can't open display: '' @ fl_display_name (env_fl env))])"
  by (simp add: program_def fl_outcome_display main_model_def check_headers_def)

lemma program_headless_run_witness:
  "program (headless_environment read_file_from_memory) =
     Exited 1 [Out ''Starting library tests...'', Out (nl # ''Testing Boost...''),
               Out ''Boost Filesystem is working. Current directory: /home/user/cross'',
               Out ''Boost System is working.'', Out (nl # ''Testing FLTK...''),
               Err ''Can't open display: '']"
  using program_headless_run [of "headless_environment read_file_from_memory"]
  by (simp add: headless_environment_def testBoost_def current_path_def ec_set_def sample_os_def)

end
